theory Spec2Isabelle
  imports Complex_Main
begin

section \<open>Python values, exceptions and dictionaries\<close>

text \<open>
  The pipeline passes duck-typed dictionaries between its stages (the graph state, the
  JSON payloads of the indexing service, the decoded answer of the language model), so
  the embedding works on one type of Python values. A dictionary is an association list
  with distinct keys, in insertion order; lookup takes the first entry of a key.
\<close>

datatype pyval =
    PNone
  | PBool bool
  | PInt int
  | PFloat real
  | PStr string
  | PList "pyval list"
  | PDict "(string \<times> pyval) list"

text \<open>
  An exception is its class name and its message, the text that \<open>str(e)\<close> yields.
  Every exception of the model is a subclass of \<open>Exception\<close>, so that
  \<open>except Exception\<close> catches each of them. The messages of exceptions raised by the
  interpreter itself are those of CPython 3.12.
\<close>

datatype exn = Exn string string

fun str_exn :: "exn \<Rightarrow> string" where
  "str_exn (Exn cls msg) = msg"

definition Exception :: "string \<Rightarrow> exn" where
  "Exception msg = Exn ''Exception'' msg"

definition AttributeError :: "string \<Rightarrow> exn" where
  "AttributeError msg = Exn ''AttributeError'' msg"

definition TypeError :: "string \<Rightarrow> exn" where
  "TypeError msg = Exn ''TypeError'' msg"

definition KeyError :: "string \<Rightarrow> exn" where
  "KeyError msg = Exn ''KeyError'' msg"

text \<open>Sequencing of computations that may raise: the first exception ends the block.\<close>

definition seq :: "exn + 'a \<Rightarrow> ('a \<Rightarrow> exn + 'b) \<Rightarrow> exn + 'b" where
  "seq m f = (case m of Inl e \<Rightarrow> Inl e | Inr x \<Rightarrow> f x)"

fun type_name :: "pyval \<Rightarrow> string" where
  "type_name PNone = ''NoneType''"
| "type_name (PBool b) = ''bool''"
| "type_name (PInt i) = ''int''"
| "type_name (PFloat r) = ''float''"
| "type_name (PStr s) = ''str''"
| "type_name (PList xs) = ''list''"
| "type_name (PDict d) = ''dict''"

text \<open>Truth value of an object, as \<open>if x:\<close> and \<open>not x\<close> test it.\<close>

fun truthy :: "pyval \<Rightarrow> bool" where
  "truthy PNone = False"
| "truthy (PBool b) = b"
| "truthy (PInt i) = (i \<noteq> 0)"
| "truthy (PFloat r) = (r \<noteq> 0)"
| "truthy (PStr s) = (s \<noteq> [])"
| "truthy (PList xs) = (xs \<noteq> [])"
| "truthy (PDict d) = (d \<noteq> [])"

definition dict_get :: "(string \<times> pyval) list \<Rightarrow> string \<Rightarrow> pyval \<Rightarrow> pyval" where
  "dict_get d k dflt = (case map_of d k of Some v \<Rightarrow> v | None \<Rightarrow> dflt)"

definition quoted :: "string \<Rightarrow> string" where
  "quoted s = CHR 0x27 # s @ [CHR 0x27]"

text \<open>\<open>x.get(k, dflt)\<close>: only a dictionary has the method.\<close>

definition py_get :: "pyval \<Rightarrow> string \<Rightarrow> pyval \<Rightarrow> exn + pyval" where
  "py_get x k dflt =
     (case x of
        PDict d \<Rightarrow> Inr (dict_get d k dflt)
      | _ \<Rightarrow> Inl (AttributeError
                 (quoted (type_name x) @ '' object has no attribute '' @ quoted ''get'')))"

text \<open>The elements a \<open>for\<close> loop visits: a string yields its characters, a
  dictionary its keys, and a value that is no container raises.\<close>

definition py_iter :: "pyval \<Rightarrow> exn + pyval list" where
  "py_iter x =
     (case x of
        PList xs \<Rightarrow> Inr xs
      | PStr s \<Rightarrow> Inr (map (\<lambda>c. PStr [c]) s)
      | PDict d \<Rightarrow> Inr (map (\<lambda>kv. PStr (fst kv)) d)
      | _ \<Rightarrow> Inl (TypeError (quoted (type_name x) @ '' object is not iterable'')))"

text \<open>Decimal digits of a natural number, for the messages that carry an index.\<close>

fun dec :: "nat \<Rightarrow> string" where
  "dec n = (if n < 10 then [char_of (48 + n)]
            else dec (n div 10) @ [char_of (48 + n mod 10)])"

declare dec.simps [simp del]

fun join :: "string \<Rightarrow> string list \<Rightarrow> string" where
  "join sep [] = []"
| "join sep [x] = x"
| "join sep (x # y # ys) = x @ sep @ join sep (y # ys)"

text \<open>\<open>sep.join(xs)\<close> on a list: every item has to be a string.\<close>

fun str_items :: "nat \<Rightarrow> pyval list \<Rightarrow> exn + string list" where
  "str_items i [] = Inr []"
| "str_items i (x # xs) =
     (case x of
        PStr s \<Rightarrow> seq (str_items (Suc i) xs) (\<lambda>r. Inr (s # r))
      | _ \<Rightarrow> Inl (TypeError (''sequence item '' @ dec i @ '': expected str instance, ''
                              @ type_name x @ '' found'')))"

definition py_join :: "string \<Rightarrow> pyval \<Rightarrow> exn + string" where
  "py_join sep v =
     (case py_iter v of
        Inl e \<Rightarrow> Inl (TypeError ''can only join an iterable'')
      | Inr xs \<Rightarrow> seq (str_items 0 xs) (\<lambda>ss. Inr (join sep ss)))"

text \<open>\<open>x[k]\<close> with a string key.\<close>

definition py_getitem :: "pyval \<Rightarrow> string \<Rightarrow> exn + pyval" where
  "py_getitem x k =
     (case x of
        PDict d \<Rightarrow> (case map_of d k of Some v \<Rightarrow> Inr v | None \<Rightarrow> Inl (KeyError (quoted k)))
      | PList xs \<Rightarrow> Inl (TypeError ''list indices must be integers or slices, not str'')
      | PStr s \<Rightarrow> Inl (TypeError (''string indices must be integers, not '' @ quoted ''str''))
      | _ \<Rightarrow> Inl (TypeError (quoted (type_name x) @ '' object is not subscriptable'')))"

text \<open>Substring test and \<open>needle in x\<close> for a string needle.\<close>

definition starts_with :: "string \<Rightarrow> string \<Rightarrow> bool" where
  "starts_with s p = (take (length p) s = p)"

fun contains :: "string \<Rightarrow> string \<Rightarrow> bool" where
  "contains [] p = (p = [])"
| "contains (c # cs) p = (starts_with (c # cs) p \<or> contains cs p)"

definition py_in :: "string \<Rightarrow> pyval \<Rightarrow> exn + bool" where
  "py_in needle x =
     (case x of
        PStr s \<Rightarrow> Inr (contains s needle)
      | PList xs \<Rightarrow> Inr (PStr needle \<in> set xs)
      | PDict d \<Rightarrow> Inr (needle \<in> set (map fst d))
      | _ \<Rightarrow> Inl (TypeError (''argument of type '' @ quoted (type_name x)
                              @ '' is not iterable'')))"

text \<open>\<open>s.strip()\<close> removes the white space at both ends. A character of the model
  is a code point below 256; those for which \<open>str.isspace\<close> holds are listed.\<close>

definition is_space :: "char \<Rightarrow> bool" where
  "is_space c = (of_char c \<in> set [9, 10, 11, 12, 13, 28, 29, 30, 31, 32, 133, 160 :: nat])"

definition strip :: "string \<Rightarrow> string" where
  "strip s = rev (dropWhile is_space (rev (dropWhile is_space s)))"

section \<open>The indexing service: normalising the raw result\<close>

text \<open>\<open>VideoIndexerService.extract_data\<close>, services/video_indexer.py. The two inner
  loops append \<open>t.get("text", "")\<close> of every fragment to an accumulator.\<close>

fun append_texts :: "pyval list \<Rightarrow> pyval list \<Rightarrow> exn + pyval list" where
  "append_texts acc [] = Inr acc"
| "append_texts acc (t # ts) =
     seq (py_get t ''text'' (PStr [])) (\<lambda>x. append_texts (acc @ [x]) ts)"

fun extract_videos ::
  "pyval list \<times> pyval list \<Rightarrow> pyval list \<Rightarrow> exn + (pyval list \<times> pyval list)" where
  "extract_videos (transcript, ocr) [] = Inr (transcript, ocr)"
| "extract_videos (transcript, ocr) (video # videos) =
     seq (py_get video ''insights'' (PDict [])) (\<lambda>insights.
     seq (py_get insights ''transcript'' (PList [])) (\<lambda>tv.
     seq (py_iter tv) (\<lambda>ts.
     seq (append_texts transcript ts) (\<lambda>transcript'.
     seq (py_get insights ''ocr'' (PList [])) (\<lambda>ov.
     seq (py_iter ov) (\<lambda>os.
     seq (append_texts ocr os) (\<lambda>ocr'.
     extract_videos (transcript', ocr') videos)))))))"

definition extract_data :: "pyval \<Rightarrow> exn + (string \<times> pyval) list" where
  "extract_data vi_json =
     seq (py_get vi_json ''videos'' (PList [])) (\<lambda>videos.
     seq (py_iter videos) (\<lambda>vs.
     seq (extract_videos ([], []) vs) (\<lambda>(transcript, ocr).
     seq (py_join '' '' (PList transcript)) (\<lambda>joined.
     seq (py_get vi_json ''summarizedInsights'' (PDict [])) (\<lambda>summarized.
     seq (py_get summarized ''duration'' PNone) (\<lambda>duration.
     seq (py_get vi_json ''id'' PNone) (\<lambda>ident.
     Inr [(''transcript'', PStr joined),
          (''ocr_text'', PList ocr),
          (''metadata'', PDict
             [(''duration'', duration),
              (''video_id'', ident),
              (''platform'', PStr ''youtube'')])])))))))"

subsection \<open>What the specification says of the normalised result\<close>

text \<open>The fields of a payload as the specification names them: a field is present or
  absent, the fragments of a kind are those of all videos in document order, and the
  text of a fragment without one is the empty string.\<close>

definition field :: "string \<Rightarrow> pyval \<Rightarrow> pyval option" where
  "field k v = (case v of PDict d \<Rightarrow> map_of d k | _ \<Rightarrow> None)"

definition elements :: "pyval option \<Rightarrow> pyval list" where
  "elements v = (case v of Some (PList xs) \<Rightarrow> xs | _ \<Rightarrow> [])"

definition spec_insights :: "pyval \<Rightarrow> pyval" where
  "spec_insights video = (case field ''insights'' video of Some i \<Rightarrow> i | None \<Rightarrow> PDict [])"

definition spec_fragments :: "string \<Rightarrow> pyval \<Rightarrow> pyval list" where
  "spec_fragments kind payload =
     concat (map (\<lambda>video. elements (field kind (spec_insights video)))
                 (elements (field ''videos'' payload)))"

definition spec_text :: "pyval \<Rightarrow> pyval" where
  "spec_text fragment = (case field ''text'' fragment of Some t \<Rightarrow> t | None \<Rightarrow> PStr [])"

definition spec_string :: "pyval \<Rightarrow> string" where
  "spec_string v = (case v of PStr s \<Rightarrow> s | _ \<Rightarrow> [])"

definition spec_transcript :: "pyval \<Rightarrow> string" where
  "spec_transcript payload =
     join '' '' (map (\<lambda>f. spec_string (spec_text f)) (spec_fragments ''transcript'' payload))"

definition spec_ocr :: "pyval \<Rightarrow> pyval list" where
  "spec_ocr payload = map spec_text (spec_fragments ''ocr'' payload)"

definition spec_duration :: "pyval \<Rightarrow> pyval" where
  "spec_duration payload =
     (case field ''summarizedInsights'' payload of
        None \<Rightarrow> PNone
      | Some s \<Rightarrow> (case field ''duration'' s of Some d \<Rightarrow> d | None \<Rightarrow> PNone))"

definition spec_source_id :: "pyval \<Rightarrow> pyval" where
  "spec_source_id payload = (case field ''id'' payload of Some i \<Rightarrow> i | None \<Rightarrow> PNone)"

text \<open>A payload whose fields may be missing but whose present fields have the types the
  service documents: objects are dictionaries, fragment collections are lists, the text
  of a transcript fragment is a string.\<close>

definition is_dict :: "pyval \<Rightarrow> bool" where
  "is_dict v = (case v of PDict d \<Rightarrow> True | _ \<Rightarrow> False)"

definition is_str :: "pyval \<Rightarrow> bool" where
  "is_str v = (case v of PStr s \<Rightarrow> True | _ \<Rightarrow> False)"

definition absent_or :: "(pyval \<Rightarrow> bool) \<Rightarrow> pyval option \<Rightarrow> bool" where
  "absent_or P v = (case v of None \<Rightarrow> True | Some x \<Rightarrow> P x)"

definition list_of :: "(pyval \<Rightarrow> bool) \<Rightarrow> pyval \<Rightarrow> bool" where
  "list_of P v = (case v of PList xs \<Rightarrow> list_all P xs | _ \<Rightarrow> False)"

definition transcript_fragment_ok :: "pyval \<Rightarrow> bool" where
  "transcript_fragment_ok f = (is_dict f \<and> absent_or is_str (field ''text'' f))"

definition insights_ok :: "pyval \<Rightarrow> bool" where
  "insights_ok i =
     (is_dict i \<and> absent_or (list_of transcript_fragment_ok) (field ''transcript'' i)
                \<and> absent_or (list_of is_dict) (field ''ocr'' i))"

definition video_ok :: "pyval \<Rightarrow> bool" where
  "video_ok v = (is_dict v \<and> absent_or insights_ok (field ''insights'' v))"

definition payload_ok :: "pyval \<Rightarrow> bool" where
  "payload_ok p =
     (is_dict p \<and> absent_or (list_of video_ok) (field ''videos'' p)
                \<and> absent_or is_dict (field ''summarizedInsights'' p))"

section \<open>The world outside the program\<close>

text \<open>
  Everything the code asks of libraries and remote services is a field of one record, a
  stub in the sense of a test: the environment variables, the credential provider, the
  HTTP endpoints (keyed by URL; a polled URL answers with its successive responses), the
  downloader, the file system, the semantic index, the language model, the JSON decoder
  \<open>json.loads\<close> and the text \<open>str(x)\<close> that an f-string inserts for a value. A stub
  that raises returns its exception.
\<close>

record http_response =
  status_code :: int
  response_text :: string
  response_json :: "exn + pyval"

record world =
  getenv :: "string \<Rightarrow> string option"
  new_credential :: "exn option"
  credential_get_token :: "string \<Rightarrow> exn + string"
  requests_post :: "string \<Rightarrow> exn + http_response"
  requests_get :: "string \<Rightarrow> (exn + http_response) list"
  ydl_download :: "pyval \<Rightarrow> string \<Rightarrow> exn option"
  open_rb :: "string \<Rightarrow> exn option"
  path_exists :: "string \<Rightarrow> bool"
  os_remove :: "string \<Rightarrow> exn option"
  new_clients :: "exn option"
  similarity_search :: "string \<Rightarrow> nat \<Rightarrow> exn + string list"
  llm_invoke :: "string \<Rightarrow> string \<Rightarrow> exn + string"
  json_loads :: "string \<Rightarrow> exn + pyval"
  py_str :: "pyval \<Rightarrow> string"

text \<open>The text an f-string inserts: a string is inserted as it is.\<close>

definition fmt :: "world \<Rightarrow> pyval \<Rightarrow> string" where
  "fmt w v = (case v of PStr s \<Rightarrow> s | _ \<Rightarrow> py_str w v)"

text \<open>A statement that may raise and returns nothing.\<close>

definition raising :: "exn option \<Rightarrow> exn + unit" where
  "raising r = (case r of Some e \<Rightarrow> Inl e | None \<Rightarrow> Inr ())"

section \<open>The indexing service: tokens, download, upload\<close>

record service =
  account_id :: string
  location :: string
  subscription_id :: string
  resource_group :: string
  vi_name :: string
  arm_token :: "string option"
  vi_token :: pyval

definition env_set :: "string option \<Rightarrow> bool" where
  "env_set v = (case v of Some s \<Rightarrow> s \<noteq> [] | None \<Rightarrow> False)"

definition env_str :: "string option \<Rightarrow> string" where
  "env_str v = (case v of Some s \<Rightarrow> s | None \<Rightarrow> [])"

text \<open>\<open>VideoIndexerService.__init__\<close>.\<close>

definition new_service :: "world \<Rightarrow> exn + service" where
  "new_service w =
     (let a = getenv w ''AZURE_VI_ACCOUNT_ID'';
          l = getenv w ''AZURE_VI_LOCATION'';
          s = getenv w ''AZURE_SUBSCRIPTION_ID'';
          r = getenv w ''AZURE_RESOURCE_GROUP'';
          n = getenv w ''AZURE_VI_NAME''
      in if \<not> list_all env_set [a, l, s, r, n]
         then Inl (Exception ''Missing Azure Video Indexer environment variables'')
         else seq (raising (new_credential w)) (\<lambda>u.
              Inr \<lparr>account_id = env_str a, location = env_str l, subscription_id = env_str s,
                   resource_group = env_str r, vi_name = env_str n,
                   arm_token = None, vi_token = PNone\<rparr>))"

text \<open>\<open>get_access_token\<close>: the cached token, or a new one that is then cached.\<close>

definition get_access_token :: "world \<Rightarrow> service \<Rightarrow> exn + (string \<times> service)" where
  "get_access_token w self =
     (if env_set (arm_token self) then Inr (env_str (arm_token self), self)
      else seq (credential_get_token w ''https://management.azure.com/.default'') (\<lambda>t.
           Inr (t, self\<lparr>arm_token := Some t\<rparr>)))"

definition token_url :: "service \<Rightarrow> string" where
  "token_url self =
     ''https://management.azure.com/subscriptions/'' @ subscription_id self
     @ ''/resourceGroups/'' @ resource_group self
     @ ''/providers/Microsoft.VideoIndexer/accounts/'' @ vi_name self
     @ ''/generateAccessToken?api-version=2024-01-01''"

text \<open>\<open>get_account_token\<close>.\<close>

definition get_account_token :: "world \<Rightarrow> service \<Rightarrow> exn + (pyval \<times> service)" where
  "get_account_token w self =
     (if truthy (vi_token self) then Inr (vi_token self, self)
      else seq (get_access_token w self) (\<lambda>(arm, self1).
           seq (requests_post w (token_url self1)) (\<lambda>response.
           if status_code response \<noteq> 200
           then Inl (Exception (''Failed to get VI account token: '' @ response_text response))
           else seq (response_json response) (\<lambda>body.
                seq (py_getitem body ''accessToken'') (\<lambda>tok.
                Inr (tok, self1\<lparr>vi_token := tok\<rparr>))))))"

text \<open>\<open>download_youtube_video\<close>: any failure of the downloader is raised again as a
  plain exception with a prefixed message.\<close>

definition download_youtube_video :: "world \<Rightarrow> pyval \<Rightarrow> string \<Rightarrow> exn + string" where
  "download_youtube_video w youtube_url output_path =
     (case ydl_download w youtube_url output_path of
        Some e \<Rightarrow> Inl (Exception (''YouTube download failed: '' @ str_exn e))
      | None \<Rightarrow> Inr output_path)"

definition videos_url :: "service \<Rightarrow> string" where
  "videos_url self =
     ''https://api.videoindexer.ai/'' @ location self @ ''/Accounts/'' @ account_id self
     @ ''/Videos''"

text \<open>\<open>upload_video\<close>.\<close>

definition upload_video ::
  "world \<Rightarrow> service \<Rightarrow> string \<Rightarrow> pyval \<Rightarrow> exn + (pyval \<times> service)" where
  "upload_video w self video_path video_name =
     seq (get_account_token w self) (\<lambda>(tok, self1).
     seq (raising (open_rb w video_path)) (\<lambda>u.
     seq (requests_post w (videos_url self1)) (\<lambda>response.
     if status_code response \<noteq> 200
     then Inl (Exception (''Upload failed: '' @ response_text response))
     else seq (response_json response) (\<lambda>data.
          seq (py_get data ''id'' PNone) (\<lambda>video_id.
          if \<not> truthy video_id
          then Inl (Exception ''Upload succeeded but no video ID returned'')
          else Inr (video_id, self1))))))"

section \<open>The indexing service: waiting for the job\<close>

text \<open>
  The body of \<open>while True\<close> in \<open>wait_for_processing\<close>, run on the successive
  responses of the status endpoint. The loop has no bound of its own: when every
  response given is of a job still in progress the result is \<open>None\<close>, the call has
  not returned. The second component counts the requests issued.
\<close>

fun poll_loop :: "(exn + http_response) list \<Rightarrow> (exn + pyval) option \<times> nat" where
  "poll_loop [] = (None, 0)"
| "poll_loop (r # rs) =
     (case r of
        Inl e \<Rightarrow> (Some (Inl e), 1)
      | Inr response \<Rightarrow>
          if status_code response \<noteq> 200
          then (Some (Inl (Exception (''Failed to get status: '' @ response_text response))), 1)
          else (case response_json response of
                  Inl e \<Rightarrow> (Some (Inl e), 1)
                | Inr data \<Rightarrow>
                    (case py_get data ''state'' PNone of
                       Inl e \<Rightarrow> (Some (Inl e), 1)
                     | Inr state \<Rightarrow>
                         if state = PStr ''Processed'' then (Some (Inr data), 1)
                         else if state = PStr ''Failed''
                         then (Some (Inl (Exception ''Video indexing failed'')), 1)
                         else if state = PStr ''Quarantined''
                         then (Some (Inl (Exception ''Video quarantined'')), 1)
                         else (case poll_loop rs of (res, n) \<Rightarrow> (res, Suc n)))))"

definition index_url :: "world \<Rightarrow> service \<Rightarrow> pyval \<Rightarrow> string" where
  "index_url w self video_id =
     ''https://api.videoindexer.ai/'' @ location self @ ''/Accounts/'' @ account_id self
     @ ''/Videos/'' @ fmt w video_id @ ''/Index''"

definition wait_for_processing ::
  "world \<Rightarrow> service \<Rightarrow> pyval \<Rightarrow> (exn + pyval) option \<times> nat" where
  "wait_for_processing w self video_id =
     (case get_account_token w self of
        Inl e \<Rightarrow> (Some (Inl e), 0)
      | Inr (tok, self1) \<Rightarrow> poll_loop (requests_get w (index_url w self1 video_id)))"

text \<open>The states of a job that end the wait, and a response of a job in progress.\<close>

definition terminal_states :: "pyval list" where
  "terminal_states = [PStr ''Processed'', PStr ''Failed'', PStr ''Quarantined'']"

definition ok_response :: "(string \<times> pyval) list \<Rightarrow> exn + http_response" where
  "ok_response payload =
     Inr \<lparr>status_code = 200, response_text = [], response_json = Inr (PDict payload)\<rparr>"

definition in_progress :: "exn + http_response \<Rightarrow> bool" where
  "in_progress r =
     (case r of
        Inl e \<Rightarrow> False
      | Inr response \<Rightarrow>
          status_code response = 200 \<and>
          (case response_json response of
             Inr (PDict d) \<Rightarrow> dict_get d ''state'' PNone \<notin> set terminal_states
           | _ \<Rightarrow> False))"

section \<open>The graph nodes\<close>

text \<open>\<open>index_video_node\<close>, graph/nodes.py. The body of its \<open>try\<close> block raises,
  returns the normalised data, or (\<open>None\<close>) is still waiting for the job.\<close>

definition index_video_body ::
  "world \<Rightarrow> (string \<times> pyval) list \<Rightarrow> (exn + (string \<times> pyval) list) option" where
  "index_video_body w state =
     (let video_url = dict_get state ''video_url'' PNone;
          video_id_input = dict_get state ''video_id'' (PStr ''vid_demo'');
          local_filename = ''temp_audit_video.mp4''
      in case
           seq (new_service w) (\<lambda>vi_service.
           seq (py_in ''youtube.com'' video_url) (\<lambda>a.
           seq (if a then Inr True else py_in ''youtu.be'' video_url) (\<lambda>b.
           seq (if b then download_youtube_video w video_url local_filename
                else Inl (Exception ''Please provide a valid URL for this test.''))
               (\<lambda>local_path.
           seq (upload_video w vi_service local_path video_id_input)
               (\<lambda>(azure_video_id, vi_service1).
           seq (if path_exists w local_path then raising (os_remove w local_path)
                else Inr ()) (\<lambda>u.
           Inr (azure_video_id, vi_service1)))))))
         of
           Inl e \<Rightarrow> Some (Inl e)
         | Inr (azure_video_id, vi_service1) \<Rightarrow>
             (case fst (wait_for_processing w vi_service1 azure_video_id) of
                None \<Rightarrow> None
              | Some (Inl e) \<Rightarrow> Some (Inl e)
              | Some (Inr raw_insights) \<Rightarrow> Some (extract_data raw_insights)))"

definition index_failure :: "exn \<Rightarrow> (string \<times> pyval) list" where
  "index_failure e =
     [(''errors'', PList [PStr (str_exn e)]),
      (''final_status'', PStr ''FAIL''),
      (''transcript'', PStr []),
      (''ocr_text'', PList [])]"

definition index_video_node ::
  "world \<Rightarrow> (string \<times> pyval) list \<Rightarrow> (string \<times> pyval) list option" where
  "index_video_node w state =
     (case index_video_body w state of
        None \<Rightarrow> None
      | Some (Inl e) \<Rightarrow> Some (index_failure e)
      | Some (Inr clean_data) \<Rightarrow> Some clean_data)"

subsection \<open>The auditor\<close>

text \<open>
  \<open>re.search(r"```(?:json)?(.?)```", content, re.DOTALL)\<close>: three backquotes, an
  optional \<open>json\<close>, a group of at most one character (any character, with
  \<open>re.DOTALL\<close>) and three backquotes again. Both optional parts are greedy, so the
  longer alternative is tried first, and the search takes the leftmost position that
  matches. The result is group 1 of the match.
\<close>

definition fence :: string where
  "fence = ''```''"

definition match_group :: "string \<Rightarrow> string option" where
  "match_group s =
     (case s of
        [] \<Rightarrow> None
      | c # rest \<Rightarrow>
          if starts_with rest fence then Some [c]
          else if starts_with s fence then Some []
          else None)"

definition match_here :: "string \<Rightarrow> string option" where
  "match_here s =
     (if starts_with s fence
      then (let r = drop 3 s
            in case (if starts_with r ''json'' then match_group (drop 4 r) else None) of
                 Some g \<Rightarrow> Some g
               | None \<Rightarrow> match_group r)
      else None)"

fun re_search :: "string \<Rightarrow> string option" where
  "re_search [] = match_here []"
| "re_search (c # cs) =
     (case match_here (c # cs) of Some g \<Rightarrow> Some g | None \<Rightarrow> re_search cs)"

text \<open>The fence is removed when the content holds two backquotes in a row;
  \<open>.group(1)\<close> of a search that found nothing raises.\<close>

definition unfence :: "string \<Rightarrow> exn + string" where
  "unfence content =
     (if contains content ''``''
      then (case re_search content of
              None \<Rightarrow> Inl (AttributeError
                (quoted ''NoneType'' @ '' object has no attribute '' @ quoted ''group''))
            | Some g \<Rightarrow> Inr g)
      else Inr content)"

text \<open>The statements of the \<open>try\<close> block after the call of the model: the fence
  is removed, the text decoded, and the three keys read with their defaults.\<close>

definition parse_response :: "world \<Rightarrow> string \<Rightarrow> exn + (string \<times> pyval) list" where
  "parse_response w content =
     seq (unfence content) (\<lambda>content1.
     seq (json_loads w (strip content1)) (\<lambda>audit_data.
     seq (py_get audit_data ''compliance_results'' (PList [])) (\<lambda>results.
     seq (py_get audit_data ''status'' (PStr ''FAIL'')) (\<lambda>status.
     seq (py_get audit_data ''final_report'' (PStr ''No report generated'')) (\<lambda>report.
     Inr [(''compliance_results'', results),
          (''final_status'', status),
          (''final_report'', report)])))))"

definition system_prompt :: "string \<Rightarrow> string" where
  \<open>system_prompt retrieved_rules =
     ''\<newline>''
     @ ''            You are a senior brand compliance auditor.\<newline>''
     @ ''            OFFICIAL REGULATORY RULES:\<newline>''
     @ ''            '' @ retrieved_rules @ ''\<newline>''
     @ ''            INSTRUCTIONS:\<newline>''
     @ ''            1. Analyze the Transcript and OCR text below.\<newline>''
     @ ''            2. Identify ANY violations of the rules.\<newline>''
     @ ''            3. Return strictly JSON in the following format:\<newline>''
     @ ''                {\<newline>''
     @ ''            "compliance_results":[\<newline>''
     @ ''            {\<newline>''
     @ ''                "category":"Claim Validation",\<newline>''
     @ ''                "severity":"CRITICAL",\<newline>''
     @ ''                "description":"Explanation of the violation..."\<newline>''
     @ ''            }\<newline>''
     @ ''        ],\<newline>''
     @ ''        "status":"FAIL",\<newline>''
     @ ''        "final_report":"Summary of findings..."\<newline>''
     @ ''        }\<newline>''
     @ ''        If no violations are found, set "status" to "PASS" and "compliance_results" to [].\<newline>''
     @ ''            ''\<close>

definition user_message :: "world \<Rightarrow> (string \<times> pyval) list \<Rightarrow> pyval \<Rightarrow> pyval \<Rightarrow> string" where
  "user_message w state transcript ocr_text =
     ''\<newline>''
     @ ''                VIDEO_METADATA:'' @ fmt w (dict_get state ''video_metadata'' (PDict []))
     @ ''\<newline>''
     @ ''                TRANSCRIPT:'' @ fmt w transcript @ ''\<newline>''
     @ ''                ON-SCREEN TEXT (OCR):'' @ fmt w ocr_text @ ''\<newline>''
     @ ''                ''"

text \<open>The calls the auditor makes to the semantic index and to the language model.\<close>

datatype call = Search string nat | Invoke string string

definition is_invoke :: "call \<Rightarrow> bool" where
  "is_invoke c = (case c of Invoke s u \<Rightarrow> True | _ \<Rightarrow> False)"

definition skipped_report :: string where
  "skipped_report = ''Audit skipped because video processing failed (No transcript)''"

definition audit_failure :: "exn \<Rightarrow> (string \<times> pyval) list" where
  "audit_failure e =
     [(''errors'', PList [PStr (str_exn e)]),
      (''final_status'', PStr ''FAIL'')]"

text \<open>\<open>audio_content_node\<close>, graph/nodes.py: the calls made, and the update returned
  or the exception that leaves the node (everything before the \<open>try\<close> block is
  unprotected).\<close>

definition audio_content_node ::
  "world \<Rightarrow> (string \<times> pyval) list \<Rightarrow> call list \<times> (exn + (string \<times> pyval) list)" where
  "audio_content_node w state =
     (let transcript = dict_get state ''transcript'' (PStr [])
      in if \<not> truthy transcript
         then ([], Inr [(''final_status'', PStr ''FAIL''),
                        (''final_report'', PStr skipped_report)])
         else (case new_clients w of
                 Some e \<Rightarrow> ([], Inl e)
               | None \<Rightarrow>
                   (let ocr_text = dict_get state ''ocr_text'' (PList [])
                    in case py_join [] ocr_text of
                         Inl e \<Rightarrow> ([], Inl e)
                       | Inr joined \<Rightarrow>
                           (let query_text = fmt w transcript @ '' '' @ joined
                            in case similarity_search w query_text 3 of
                                 Inl e \<Rightarrow> ([Search query_text 3], Inl e)
                               | Inr docs \<Rightarrow>
                                   (let sys = system_prompt (join ''\<newline>\<newline>'' docs);
                                        usr = user_message w state transcript ocr_text
                                    in ([Search query_text 3, Invoke sys usr],
                                        Inr (case seq (llm_invoke w sys usr) (parse_response w) of
                                               Inl e \<Rightarrow> audit_failure e
                                             | Inr update \<Rightarrow> update)))))))"

section \<open>The workflow\<close>

text \<open>
  Modelled from the spec: the state schema \<open>VideoAuditState\<close> (graph/state.py), which
  decides how the update a node returns is merged into the state. The specification
  gives the fields of the state and says of \<open>errors\<close> that the pipeline never clears
  previous entries and only appends; every other key of an update replaces the value
  held.
\<close>

fun dict_set :: "(string \<times> pyval) list \<Rightarrow> string \<Rightarrow> pyval \<Rightarrow> (string \<times> pyval) list" where
  "dict_set [] k v = [(k, v)]"
| "dict_set ((k', v') # d) k v = (if k' = k then (k, v) # d else (k', v') # dict_set d k v)"

definition merge_value :: "string \<Rightarrow> pyval option \<Rightarrow> pyval \<Rightarrow> pyval" where
  "merge_value k old new =
     (if k = ''errors''
      then (case (old, new) of
              (Some (PList xs), PList ys) \<Rightarrow> PList (xs @ ys)
            | _ \<Rightarrow> new)
      else new)"

fun merge_state ::
  "(string \<times> pyval) list \<Rightarrow> (string \<times> pyval) list \<Rightarrow> (string \<times> pyval) list" where
  "merge_state state [] = state"
| "merge_state state ((k, v) # update) =
     merge_state (dict_set state k (merge_value k (map_of state k) v)) update"

text \<open>\<open>create_graph\<close>, graph/workflow.py: the entry point is the indexer, whose edge
  leads to the auditor, whose edge leads to the end. \<open>invoke\<close> runs the compiled
  graph on the inputs and returns the final state.\<close>

definition invoke ::
  "world \<Rightarrow> (string \<times> pyval) list \<Rightarrow> (call list \<times> (exn + (string \<times> pyval) list)) option" where
  "invoke w inputs =
     (case index_video_node w inputs of
        None \<Rightarrow> None
      | Some update1 \<Rightarrow>
          (let state1 = merge_state inputs update1
           in case audio_content_node w state1 of
                (calls, Inl e) \<Rightarrow> Some (calls, Inl e)
              | (calls, Inr update2) \<Rightarrow> Some (calls, Inr (merge_state state1 update2))))"

text \<open>\<open>audit_video\<close>, api/server.py: the inputs the request handler gives the graph
  and the status it reads from the final state.\<close>

definition initial_inputs :: "string \<Rightarrow> string \<Rightarrow> (string \<times> pyval) list" where
  "initial_inputs video_url video_id_short =
     [(''video_url'', PStr video_url),
      (''video_id'', PStr video_id_short),
      (''compliance_results'', PList []),
      (''errors'', PList [])]"


text \<open>The final state of a run that completed, and its status.\<close>

definition final_state ::
  "(call list \<times> (exn + (string \<times> pyval) list)) option \<Rightarrow> (string \<times> pyval) list option" where
  "final_state run =
     (case run of Some (calls, Inr state) \<Rightarrow> Some state | _ \<Rightarrow> None)"

definition final_status ::
  "(call list \<times> (exn + (string \<times> pyval) list)) option \<Rightarrow> pyval option" where
  "final_status run =
     (case final_state run of Some state \<Rightarrow> map_of state ''final_status'' | None \<Rightarrow> None)"

definition final_results ::
  "(call list \<times> (exn + (string \<times> pyval) list)) option \<Rightarrow> pyval option" where
  "final_results run =
     (case final_state run of Some state \<Rightarrow> map_of state ''compliance_results'' | None \<Rightarrow> None)"

section \<open>A stub world for concrete runs\<close>

text \<open>
  Every variable is set, every remote call succeeds, the status endpoint answers with
  the responses given and the language model with the answer given. The decoder is
  \<open>json.loads\<close> on the texts used below and raises on any other text.
\<close>

definition issue :: "string \<Rightarrow> string \<Rightarrow> string \<Rightarrow> pyval" where
  "issue category severity description =
     PDict [(''category'', PStr category), (''severity'', PStr severity),
            (''description'', PStr description)]"

definition stub_loads :: "string \<Rightarrow> exn + pyval" where
  \<open>stub_loads s =
     (if s = ''{"status":"PASS","compliance_results":[],"final_report":"ok"}''
      then Inr (PDict [(''status'', PStr ''PASS''), (''compliance_results'', PList []),
                       (''final_report'', PStr ''ok'')])
      else if s = ''{"status":"UNKNOWN"}''
      then Inr (PDict [(''status'', PStr ''UNKNOWN'')])
      else if s = ''{"status":"PASS"}''
      then Inr (PDict [(''status'', PStr ''PASS'')])
      else if s = ''{"final_report":"x"}''
      then Inr (PDict [(''final_report'', PStr ''x'')])
      else if s = ''{}''
      then Inr (PDict [])
      else if s = ''[]''
      then Inr (PList [])
      else if s = ''{"status":"PASS","compliance_results":[{"category":"Claim Validation","severity":"CRITICAL","description":"cure"}]}''
      then Inr (PDict [(''status'', PStr ''PASS''),
                       (''compliance_results'',
                        PList [issue ''Claim Validation'' ''CRITICAL'' ''cure''])])
      else if s = ''{"status":"PASS","compliance_results":[{"category":"Tone","severity":"BANANA","description":"odd"}],"final_report":"r"}''
      then Inr (PDict [(''status'', PStr ''PASS''),
                       (''compliance_results'', PList [issue ''Tone'' ''BANANA'' ''odd'']),
                       (''final_report'', PStr ''r'')])
      else Inl (Exn ''JSONDecodeError'' ''Expecting value: line 1 column 1 (char 0)''))\<close>

definition stub_world :: "(exn + http_response) list \<Rightarrow> string \<Rightarrow> world" where
  "stub_world polls answer =
     \<lparr>getenv = (\<lambda>name. Some ''demo''),
      new_credential = None,
      credential_get_token = (\<lambda>scope. Inr ''arm-token''),
      requests_post = (\<lambda>url. Inr \<lparr>status_code = 200, response_text = [],
         response_json = Inr (PDict [(''accessToken'', PStr ''vi-token''),
                                     (''id'', PStr ''job1'')])\<rparr>),
      requests_get = (\<lambda>url. polls),
      ydl_download = (\<lambda>url path. None),
      open_rb = (\<lambda>path. None),
      path_exists = (\<lambda>path. True),
      os_remove = (\<lambda>path. None),
      new_clients = None,
      similarity_search = (\<lambda>query k. Inr [''Claims must be verified.'']),
      llm_invoke = (\<lambda>sys usr. Inr answer),
      json_loads = stub_loads,
      py_str = type_name\<rparr>"

definition processed_payload :: "(string \<times> pyval) list" where
  "processed_payload =
     [(''state'', PStr ''Processed''),
      (''id'', PStr ''job1''),
      (''summarizedInsights'', PDict [(''duration'', PInt 12)]),
      (''videos'', PList
         [PDict [(''insights'', PDict
            [(''transcript'', PList [PDict [(''text'', PStr ''Our product'')],
                                     PDict [(''text'', PStr ''cures everything'')]]),
             (''ocr'', PList [PDict [(''text'', PStr ''SALE'')], PDict []])])],
          PDict [],
          PDict [(''insights'', PDict
            [(''transcript'', PList [PDict [(''id'', PInt 3)]])])]])]"

definition stub_polls :: "(exn + http_response) list" where
  "stub_polls =
     [ok_response [(''state'', PStr ''Uploaded'')],
      ok_response [(''state'', PStr ''Processing'')],
      ok_response processed_payload]"

definition stub_inputs :: "(string \<times> pyval) list" where
  "stub_inputs = initial_inputs ''https://youtu.be/abc'' ''vid_1234abcd''"

definition stub_service :: service where
  "stub_service =
     \<lparr>account_id = ''demo'', location = ''demo'', subscription_id = ''demo'',
      resource_group = ''demo'', vi_name = ''demo'', arm_token = None, vi_token = PNone\<rparr>"

text \<open>The state the indexer leaves in the stub world, the prompts the auditor then builds
  from it, and the answers of the language model used below.\<close>

definition stub_state :: "(string \<times> pyval) list" where
  "stub_state =
     stub_inputs @
     [(''transcript'', PStr ''Our product cures everything ''),
      (''ocr_text'', PList [PStr ''SALE'', PStr []]),
      (''metadata'', PDict [(''duration'', PInt 12), (''video_id'', PStr ''job1''),
                            (''platform'', PStr ''youtube'')])]"

definition stub_system :: string where
  "stub_system = system_prompt ''Claims must be verified.''"

definition stub_user :: "world \<Rightarrow> string" where
  "stub_user w =
     user_message w stub_state (PStr ''Our product cures everything '')
       (PList [PStr ''SALE'', PStr []])"

definition pass_answer :: string where
  \<open>pass_answer = ''{"status":"PASS","compliance_results":[],"final_report":"ok"}''\<close>

definition fenced_answer :: string where
  \<open>fenced_answer =
     ''```json\<newline>{"status":"PASS","compliance_results":[],"final_report":"ok"}\<newline>```''\<close>

definition status_only_answer :: string where
  \<open>status_only_answer = ''{"status":"PASS"}''\<close>

definition report_only_answer :: string where
  \<open>report_only_answer = ''{"final_report":"x"}''\<close>

definition banana_answer :: string where
  \<open>banana_answer = ''{"status":"PASS","compliance_results":[{"category":"Tone","severity":"BANANA","description":"odd"}],"final_report":"r"}''\<close>


definition pass_issue_answer :: string where
  \<open>pass_issue_answer = ''{"status":"PASS","compliance_results":[{"category":"Claim Validation","severity":"CRITICAL","description":"cure"}]}''\<close>

definition refusal_answer :: string where
  "refusal_answer = ''I cannot help with that.''"

text \<open>The exception of \<open>.group(1)\<close> on a search without a match.\<close>

definition group_error :: exn where
  "group_error =
     AttributeError (quoted ''NoneType'' @ '' object has no attribute '' @ quoted ''group'')"

text \<open>Inputs with a reference that is no supported source, responses of a job that is
  quarantined, the service object after the upload, and the final state of the run in
  which the model answers with the passing object.\<close>

definition vimeo_inputs :: "(string \<times> pyval) list" where
  "vimeo_inputs = initial_inputs ''https://vimeo.com/1'' ''vid_1234abcd''"

definition quarantined_polls :: "(exn + http_response) list" where
  "quarantined_polls =
     [ok_response [(''state'', PStr ''Processing'')],
      ok_response [(''state'', PStr ''Quarantined'')],
      ok_response processed_payload]"

definition quarantined_reply :: "exn + http_response" where
  \<open>quarantined_reply =
     Inr \<lparr>status_code = 200, response_text = ''{"state":"Quarantined"}'',
          response_json = Inr (PDict [(''state'', PStr ''Quarantined'')])\<rparr>\<close>

definition stub_uploaded :: service where
  "stub_uploaded = stub_service\<lparr>arm_token := Some ''arm-token'', vi_token := PStr ''vi-token''\<rparr>"

definition pass_final :: "(string \<times> pyval) list" where
  "pass_final =
     merge_state stub_state
       [(''compliance_results'', PList []),
        (''final_status'', PStr ''PASS''),
        (''final_report'', PStr ''ok'')]"

section \<open>Basic facts\<close>

lemma seq_Inl [simp]: "seq (Inl e) f = Inl e"
  by (simp add: seq_def)

lemma seq_Inr [simp]: "seq (Inr x) f = f x"
  by (simp add: seq_def)

lemma py_get_dict [simp]: "py_get (PDict d) k dflt = Inr (dict_get d k dflt)"
  by (simp add: py_get_def)

lemma is_dictE: "is_dict v \<Longrightarrow> \<exists>d. v = PDict d"
  by (cases v) (simp_all add: is_dict_def)

lemma is_strE: "is_str v \<Longrightarrow> \<exists>s. v = PStr s"
  by (cases v) (simp_all add: is_str_def)

lemma list_ofE: "list_of P v \<Longrightarrow> \<exists>xs. v = PList xs \<and> list_all P xs"
  by (cases v) (simp_all add: list_of_def)

lemma append_texts_dicts:
  "list_all is_dict ts \<Longrightarrow> append_texts acc ts = Inr (acc @ map spec_text ts)"
proof (induction ts arbitrary: acc)
  case Nil
  then show ?case by simp
next
  case (Cons t ts)
  from Cons.prems obtain d where t: "t = PDict d" and rest: "list_all is_dict ts"
    by (auto dest: is_dictE)
  have "spec_text t = dict_get d ''text'' (PStr [])"
    by (simp add: t spec_text_def field_def dict_get_def split: option.splits)
  with Cons.IH [OF rest] show ?case
    by (simp add: t)
qed

lemma transcript_fragment_is_dict:
  "list_all transcript_fragment_ok ts \<Longrightarrow> list_all is_dict ts"
  by (induction ts) (simp_all add: transcript_fragment_ok_def)

lemma fragments_of_field:
  assumes "is_dict i" and "absent_or (list_of P) (field k i)"
  shows "\<exists>xs. seq (py_get i k (PList [])) py_iter = Inr xs
              \<and> xs = elements (field k i) \<and> list_all P xs"
proof -
  from assms(1) obtain d where i: "i = PDict d" by (auto dest: is_dictE)
  show ?thesis
  proof (cases "map_of d k")
    case None
    then show ?thesis
      by (simp add: i dict_get_def py_iter_def field_def elements_def)
  next
    case (Some v)
    with assms(2) have "list_of P v"
      by (simp add: i field_def absent_or_def)
    then obtain xs where "v = PList xs" "list_all P xs"
      by (auto dest: list_ofE)
    with Some show ?thesis
      by (simp add: i dict_get_def py_iter_def field_def elements_def)
  qed
qed

lemma insights_of_video:
  assumes "video_ok v"
  shows "py_get v ''insights'' (PDict []) = Inr (spec_insights v) \<and> insights_ok (spec_insights v)"
proof -
  from assms obtain d where v: "v = PDict d" by (auto simp: video_ok_def dest: is_dictE)
  show ?thesis
  proof (cases "map_of d ''insights''")
    case None
    then show ?thesis
      by (simp add: v dict_get_def spec_insights_def field_def insights_ok_def
          is_dict_def absent_or_def)
  next
    case (Some i)
    with assms show ?thesis
      by (simp add: v dict_get_def spec_insights_def field_def video_ok_def absent_or_def)
  qed
qed

lemma extract_videos_ok:
  "list_all video_ok vs \<Longrightarrow>
   extract_videos (tr, oc) vs =
     Inr (tr @ map spec_text (concat (map (\<lambda>v. elements (field ''transcript'' (spec_insights v))) vs)),
          oc @ map spec_text (concat (map (\<lambda>v. elements (field ''ocr'' (spec_insights v))) vs)))"
proof (induction vs arbitrary: tr oc)
  case Nil
  then show ?case by simp
next
  case (Cons v vs)
  from Cons.prems have v: "video_ok v" and rest: "list_all video_ok vs"
    by simp_all
  let ?i = "spec_insights v"
  from insights_of_video [OF v]
  have get: "py_get v ''insights'' (PDict []) = Inr ?i" and ok: "insights_ok ?i"
    by simp_all
  from ok have d: "is_dict ?i"
    and t: "absent_or (list_of transcript_fragment_ok) (field ''transcript'' ?i)"
    and o: "absent_or (list_of is_dict) (field ''ocr'' ?i)"
    by (simp_all add: insights_ok_def)
  from fragments_of_field [OF d t] obtain ts where
    ts: "seq (py_get ?i ''transcript'' (PList [])) py_iter = Inr ts"
    "ts = elements (field ''transcript'' ?i)" "list_all transcript_fragment_ok ts"
    by blast
  from fragments_of_field [OF d o] obtain os where
    os: "seq (py_get ?i ''ocr'' (PList [])) py_iter = Inr os"
    "os = elements (field ''ocr'' ?i)" "list_all is_dict os"
    by blast
  from d obtain di where di: "?i = PDict di" by (auto dest: is_dictE)
  from ts(1) have ts': "py_iter (dict_get di ''transcript'' (PList [])) = Inr ts"
    by (simp add: di)
  from os(1) have os': "py_iter (dict_get di ''ocr'' (PList [])) = Inr os"
    by (simp add: di)
  have at: "append_texts tr ts = Inr (tr @ map spec_text ts)"
    by (rule append_texts_dicts [OF transcript_fragment_is_dict [OF ts(3)]])
  have ao: "append_texts oc os = Inr (oc @ map spec_text os)"
    by (rule append_texts_dicts [OF os(3)])
  show ?case
    using Cons.IH [OF rest, of "tr @ map spec_text ts" "oc @ map spec_text os"]
    by (simp add: get di ts' os' at ao ts(2) [unfolded di, symmetric]
        os(2) [unfolded di, symmetric])
qed

lemma str_items_texts:
  "list_all transcript_fragment_ok ts \<Longrightarrow>
   str_items i (map spec_text ts) = Inr (map (\<lambda>f. spec_string (spec_text f)) ts)"
proof (induction ts arbitrary: i)
  case Nil
  then show ?case by simp
next
  case (Cons t ts)
  from Cons.prems have t: "transcript_fragment_ok t" and rest: "list_all transcript_fragment_ok ts"
    by simp_all
  have "is_str (spec_text t)"
    using t by (auto simp: transcript_fragment_ok_def spec_text_def absent_or_def is_str_def
        split: option.splits)
  then obtain s where s: "spec_text t = PStr s" by (auto dest: is_strE)
  show ?case
    using Cons.IH [OF rest, of "Suc i"] by (simp add: s spec_string_def)
qed

lemma transcript_fragments_ok:
  assumes "list_all video_ok vs"
  shows "list_all transcript_fragment_ok
           (concat (map (\<lambda>v. elements (field ''transcript'' (spec_insights v))) vs))"
  using assms
proof (induction vs)
  case Nil
  then show ?case by simp
next
  case (Cons v vs)
  from Cons.prems have v: "video_ok v" by simp
  from insights_of_video [OF v] have ok: "insights_ok (spec_insights v)" by simp
  then have "list_all transcript_fragment_ok (elements (field ''transcript'' (spec_insights v)))"
    using fragments_of_field [of "spec_insights v" transcript_fragment_ok "''transcript''"]
    by (auto simp: insights_ok_def)
  with Cons show ?case by simp
qed

lemma extract_data_ok:
  assumes "payload_ok p"
  shows "extract_data p =
           Inr [(''transcript'', PStr (spec_transcript p)),
                (''ocr_text'', PList (spec_ocr p)),
                (''metadata'', PDict [(''duration'', spec_duration p),
                                      (''video_id'', spec_source_id p),
                                      (''platform'', PStr ''youtube'')])]"
proof -
  from assms obtain d where p: "p = PDict d"
    by (auto simp: payload_ok_def dest: is_dictE)
  from assms have "is_dict p" "absent_or (list_of video_ok) (field ''videos'' p)"
    by (simp_all add: payload_ok_def)
  from fragments_of_field [OF this] obtain vs where
    vs: "seq (py_get p ''videos'' (PList [])) py_iter = Inr vs"
    "vs = elements (field ''videos'' p)" "list_all video_ok vs"
    by blast
  from vs(1) have iter: "py_iter (dict_get d ''videos'' (PList [])) = Inr vs"
    by (simp add: p)
  let ?ts = "concat (map (\<lambda>v. elements (field ''transcript'' (spec_insights v))) vs)"
  have frs: "spec_fragments kind p = concat (map (\<lambda>v. elements (field kind (spec_insights v))) vs)"
    for kind
    by (simp add: spec_fragments_def vs(2))
  have joined: "py_join '' '' (PList (map spec_text ?ts)) = Inr (spec_transcript p)"
    using str_items_texts [OF transcript_fragments_ok [OF vs(3)], of 0]
    by (simp add: py_join_def py_iter_def spec_transcript_def frs)
  have summ: "seq (py_get p ''summarizedInsights'' (PDict [])) (\<lambda>s. py_get s ''duration'' PNone)
                = Inr (spec_duration p)"
  proof (cases "map_of d ''summarizedInsights''")
    case None
    then show ?thesis
      by (simp add: p dict_get_def spec_duration_def field_def)
  next
    case (Some s)
    with assms have "is_dict s"
      by (simp add: p payload_ok_def field_def absent_or_def)
    then obtain ds where "s = PDict ds" by (auto dest: is_dictE)
    with Some show ?thesis
      by (simp add: p dict_get_def spec_duration_def field_def split: option.splits)
  qed
  then have summ': "seq (Inr (dict_get d ''summarizedInsights'' (PDict []))) (\<lambda>s. py_get s ''duration'' PNone)
                = Inr (spec_duration p)"
    by (simp add: p)
  have ident: "dict_get d ''id'' PNone = spec_source_id p"
    by (simp add: p dict_get_def spec_source_id_def field_def split: option.splits)
  note facts = iter extract_videos_ok [OF vs(3), of "[]" "[]"] joined summ' ident frs
  show ?thesis
    unfolding extract_data_def p
    using facts [unfolded p] by (simp add: spec_ocr_def)
qed

lemma map_of_dict_set:
  "map_of (dict_set d k v) k' = (if k' = k then Some v else map_of d k')"
  by (induction d) auto

lemma map_of_merge_state_other:
  "k \<notin> fst ` set update \<Longrightarrow> map_of (merge_state state update) k = map_of state k"
  by (induction update arbitrary: state) (auto simp: map_of_dict_set)

lemma poll_loop_in_progress:
  assumes "in_progress r"
  shows "poll_loop (r # rs) = (fst (poll_loop rs), Suc (snd (poll_loop rs)))"
proof -
  from assms obtain response d where r: "r = Inr response"
    and st: "status_code response = 200"
    and js: "response_json response = Inr (PDict d)"
    and nt: "dict_get d ''state'' PNone \<notin> set terminal_states"
    by (auto simp: in_progress_def split: sum.splits pyval.splits)
  from nt show ?thesis
    by (simp add: r st js terminal_states_def split: prod.splits)
qed

lemma poll_loop_prefix:
  "list_all in_progress pre \<Longrightarrow>
   poll_loop (pre @ tail) = (fst (poll_loop tail), length pre + snd (poll_loop tail))"
  by (induction pre) (simp_all add: poll_loop_in_progress del: poll_loop.simps(2))

lemma poll_loop_ok:
  assumes "status_code response = 200" and "response_json response = Inr (PDict d)"
  shows "poll_loop (Inr response # rest) =
     (if dict_get d ''state'' PNone = PStr ''Processed'' then (Some (Inr (PDict d)), 1)
      else if dict_get d ''state'' PNone = PStr ''Failed''
      then (Some (Inl (Exception ''Video indexing failed'')), 1)
      else if dict_get d ''state'' PNone = PStr ''Quarantined''
      then (Some (Inl (Exception ''Video quarantined'')), 1)
      else (fst (poll_loop rest), Suc (snd (poll_loop rest))))"
  using assms by (simp split: prod.splits)

lemma poll_loop_bad_status:
  "status_code response \<noteq> 200 \<Longrightarrow>
   poll_loop (Inr response # rest) =
     (Some (Inl (Exception (''Failed to get status: '' @ response_text response))), 1)"
  by simp

section \<open>The normalised result of the extraction\<close>

text \<open>
  Claim C8. For every raw result whose fields, where present, have the documented types,
  \<open>extract_data\<close> returns: as transcript the texts of the transcript fragments of all
  videos in document order, joined by single spaces; as OCR sequence the texts of the OCR
  fragments in source order; as metadata the duration and the source id of the payload,
  \<open>None\<close> when absent. It does not fail on a missing field, and a payload without a
  \<open>videos\<close> key gives the empty transcript and the empty OCR sequence.
\<close>

theorem extract_data_normalises:
  assumes "payload_ok p"
  shows "extract_data p =
           Inr [(''transcript'', PStr (spec_transcript p)),
                (''ocr_text'', PList (spec_ocr p)),
                (''metadata'', PDict [(''duration'', spec_duration p),
                                      (''video_id'', spec_source_id p),
                                      (''platform'', PStr ''youtube'')])] \<and>
         (field ''videos'' p = None \<longrightarrow> spec_transcript p = [] \<and> spec_ocr p = [])"
  using extract_data_ok [OF assms]
  by (simp add: spec_transcript_def spec_ocr_def spec_fragments_def elements_def)

theorem extract_data_normalises_witness:
  "payload_ok (PDict processed_payload) \<and>
   extract_data (PDict processed_payload) =
     Inr [(''transcript'', PStr ''Our product cures everything ''),
          (''ocr_text'', PList [PStr ''SALE'', PStr []]),
          (''metadata'', PDict [(''duration'', PInt 12), (''video_id'', PStr ''job1''),
                                (''platform'', PStr ''youtube'')])] \<and>
   payload_ok (PDict [(''state'', PStr ''Processed'')]) \<and>
   extract_data (PDict [(''state'', PStr ''Processed'')]) =
     Inr [(''transcript'', PStr []),
          (''ocr_text'', PList []),
          (''metadata'', PDict [(''duration'', PNone), (''video_id'', PNone),
                                (''platform'', PStr ''youtube'')])]"
proof -
  have ok1: "payload_ok (PDict processed_payload)"
    by (simp add: payload_ok_def video_ok_def insights_ok_def transcript_fragment_ok_def
        list_of_def absent_or_def is_dict_def is_str_def field_def processed_payload_def)
  have ok2: "payload_ok (PDict [(''state'', PStr ''Processed'')])"
    by (simp add: payload_ok_def absent_or_def is_dict_def field_def)
  have v1: "spec_transcript (PDict processed_payload) = ''Our product cures everything ''"
    by (simp add: spec_transcript_def spec_fragments_def spec_insights_def spec_text_def
        spec_string_def elements_def field_def processed_payload_def)
  have v2: "spec_ocr (PDict processed_payload) = [PStr ''SALE'', PStr []]"
    by (simp add: spec_ocr_def spec_fragments_def spec_insights_def spec_text_def
        elements_def field_def processed_payload_def)
  have v3: "spec_duration (PDict processed_payload) = PInt 12"
    "spec_source_id (PDict processed_payload) = PStr ''job1''"
    by (simp_all add: spec_duration_def spec_source_id_def field_def processed_payload_def)
  have v4: "spec_duration (PDict [(''state'', PStr ''Processed'')]) = PNone"
    "spec_source_id (PDict [(''state'', PStr ''Processed'')]) = PNone"
    "field ''videos'' (PDict [(''state'', PStr ''Processed'')]) = None"
    by (simp_all add: spec_duration_def spec_source_id_def field_def)
  from extract_data_normalises [OF ok1] extract_data_normalises [OF ok2] ok1 ok2
  show ?thesis
    by (simp add: v1 v2 v3 v4)
qed

section \<open>Waiting for the indexing job\<close>

text \<open>
  Claim C7. Let the status endpoint answer first with responses of a job in progress.
  Then \<open>wait_for_processing\<close> has not returned when nothing follows them. On a next
  response with status 200 and a JSON object as body, whatever its text: in state
  \<open>Processed\<close> it returns that object, the payload of the response; in state
  \<open>Failed\<close> it raises the processing error and in state \<open>Quarantined\<close> the
  rejection error, in each case after exactly one more request whatever responses would
  follow; in any other state it goes on with the following responses. On a status other
  than 200 it raises at once, with no further request.
\<close>

theorem wait_for_processing_outcomes:
  assumes "get_account_token w self = Inr (tok, self1)"
    and "requests_get w (index_url w self1 video_id) = pre @ tail"
    and "list_all in_progress pre"
  shows
    "(tail = [] \<longrightarrow> wait_for_processing w self video_id = (None, length pre)) \<and>
     (\<forall>response d rest.
        tail = Inr response # rest \<and> status_code response = 200 \<and>
        response_json response = Inr (PDict d) \<longrightarrow>
        (dict_get d ''state'' PNone = PStr ''Processed'' \<longrightarrow>
           wait_for_processing w self video_id = (Some (Inr (PDict d)), Suc (length pre))) \<and>
        (dict_get d ''state'' PNone = PStr ''Failed'' \<longrightarrow>
           wait_for_processing w self video_id =
             (Some (Inl (Exception ''Video indexing failed'')), Suc (length pre))) \<and>
        (dict_get d ''state'' PNone = PStr ''Quarantined'' \<longrightarrow>
           wait_for_processing w self video_id =
             (Some (Inl (Exception ''Video quarantined'')), Suc (length pre))) \<and>
        (dict_get d ''state'' PNone \<notin> set terminal_states \<longrightarrow>
           wait_for_processing w self video_id =
             (fst (poll_loop rest), Suc (length pre) + snd (poll_loop rest)))) \<and>
     (\<forall>response rest. tail = Inr response # rest \<and> status_code response \<noteq> 200 \<longrightarrow>
        wait_for_processing w self video_id =
          (Some (Inl (Exception (''Failed to get status: '' @ response_text response))),
           Suc (length pre)))"
proof -
  have w: "wait_for_processing w self video_id =
             (fst (poll_loop tail), length pre + snd (poll_loop tail))"
    using assms by (simp add: wait_for_processing_def poll_loop_prefix)
  show ?thesis
    unfolding w
    by (auto simp: poll_loop_ok poll_loop_bad_status terminal_states_def
        simp del: poll_loop.simps(2))
qed

theorem wait_for_processing_outcomes_witness:
  "get_account_token (stub_world stub_polls ''{}'') stub_service =
     Inr (PStr ''vi-token'',
          stub_service\<lparr>arm_token := Some ''arm-token'', vi_token := PStr ''vi-token''\<rparr>) \<and>
   requests_get (stub_world stub_polls ''{}'')
     (index_url (stub_world stub_polls ''{}'')
        (stub_service\<lparr>arm_token := Some ''arm-token'', vi_token := PStr ''vi-token''\<rparr>)
        (PStr ''job1'')) =
     [ok_response [(''state'', PStr ''Uploaded'')], ok_response [(''state'', PStr ''Processing'')]]
     @ [ok_response processed_payload] \<and>
   list_all in_progress
     [ok_response [(''state'', PStr ''Uploaded'')], ok_response [(''state'', PStr ''Processing'')]] \<and>
   wait_for_processing (stub_world stub_polls ''{}'') stub_service (PStr ''job1'') =
     (Some (Inr (PDict processed_payload)), 3) \<and>
   requests_get (stub_world [quarantined_reply, ok_response processed_payload] ''{}'')
     (index_url (stub_world [quarantined_reply, ok_response processed_payload] ''{}'')
        (stub_service\<lparr>arm_token := Some ''arm-token'', vi_token := PStr ''vi-token''\<rparr>)
        (PStr ''job1'')) =
     [] @ [quarantined_reply, ok_response processed_payload] \<and>
   wait_for_processing (stub_world [quarantined_reply, ok_response processed_payload] ''{}'')
     stub_service (PStr ''job1'') =
     (Some (Inl (Exception ''Video quarantined'')), 1)"
proof -
  let ?w = "stub_world stub_polls ''{}''"
  let ?q = "stub_world [quarantined_reply, ok_response processed_payload] ''{}''"
  let ?s = "stub_service\<lparr>arm_token := Some ''arm-token'', vi_token := PStr ''vi-token''\<rparr>"
  let ?pre = "[ok_response [(''state'', PStr ''Uploaded'')],
               ok_response [(''state'', PStr ''Processing'')]]"
  let ?r = "\<lparr>status_code = 200, response_text = [],
             response_json = Inr (PDict processed_payload)\<rparr>"
  have h1: "get_account_token (stub_world polls ''{}'') stub_service = Inr (PStr ''vi-token'', ?s)"
    for polls
    by (simp add: get_account_token_def get_access_token_def stub_world_def stub_service_def
        env_set_def py_getitem_def)
  have h2: "requests_get ?w (index_url ?w ?s (PStr ''job1'')) = ?pre @ [Inr ?r]"
    by (simp add: stub_world_def stub_polls_def ok_response_def)
  have h3: "list_all in_progress ?pre"
    by (simp add: in_progress_def ok_response_def terminal_states_def dict_get_def)
  have st: "dict_get processed_payload ''state'' PNone = PStr ''Processed''"
    by (simp add: processed_payload_def dict_get_def)
  have r: "status_code ?r = 200" "response_json ?r = Inr (PDict processed_payload)"
    by simp_all
  from wait_for_processing_outcomes [OF h1 h2 h3] st r
  have a: "wait_for_processing ?w stub_service (PStr ''job1'') =
          (Some (Inr (PDict processed_payload)), Suc (length ?pre))"
    by blast
  obtain r2 where q: "quarantined_reply = Inr r2"
    and r2: "status_code r2 = 200"
      "response_json r2 = Inr (PDict [(''state'', PStr ''Quarantined'')])"
    by (simp add: quarantined_reply_def)
  have g2: "requests_get ?q (index_url ?q ?s (PStr ''job1'')) =
              [] @ Inr r2 # [ok_response processed_payload]"
    by (simp add: stub_world_def q)
  have g3: "list_all in_progress []"
    by simp
  have qs: "dict_get [(''state'', PStr ''Quarantined'')] ''state'' PNone = PStr ''Quarantined''"
    by (simp add: dict_get_def)
  from wait_for_processing_outcomes [OF h1 g2 g3] r2 qs
  have b: "wait_for_processing ?q stub_service (PStr ''job1'') =
          (Some (Inl (Exception ''Video quarantined'')), Suc (length ([] :: (exn + http_response) list)))"
    by blast
  have h2': "requests_get ?w (index_url ?w ?s (PStr ''job1'')) =
               ?pre @ [ok_response processed_payload]"
    by (simp add: stub_world_def stub_polls_def)
  have g2': "requests_get ?q (index_url ?q ?s (PStr ''job1'')) =
              [] @ [quarantined_reply, ok_response processed_payload]"
    by (simp add: stub_world_def)
  from a b h1 h2' h3 g2' show ?thesis by simp
qed

section \<open>The auditor: facts about the node\<close>

lemma audio_skip:
  "\<not> truthy (dict_get state ''transcript'' (PStr [])) \<Longrightarrow>
   audio_content_node w state =
     ([], Inr [(''final_status'', PStr ''FAIL''), (''final_report'', PStr skipped_report)])"
  by (simp add: audio_content_node_def)

lemma audio_run:
  assumes "truthy (dict_get state ''transcript'' (PStr []))"
    and "new_clients w = None"
    and "py_join [] (dict_get state ''ocr_text'' (PList [])) = Inr joined"
    and "similarity_search w (fmt w (dict_get state ''transcript'' (PStr [])) @ '' '' @ joined) 3
           = Inr docs"
  shows "audio_content_node w state =
           ([Search (fmt w (dict_get state ''transcript'' (PStr [])) @ '' '' @ joined) 3,
             Invoke (system_prompt (join ''\<newline>\<newline>'' docs))
                    (user_message w state (dict_get state ''transcript'' (PStr []))
                       (dict_get state ''ocr_text'' (PList [])))],
            Inr (case seq (llm_invoke w (system_prompt (join ''\<newline>\<newline>'' docs))
                             (user_message w state (dict_get state ''transcript'' (PStr []))
                                (dict_get state ''ocr_text'' (PList []))))
                          (parse_response w) of
                   Inl e \<Rightarrow> audit_failure e
                 | Inr u \<Rightarrow> u))"
  using assms by (simp add: audio_content_node_def Let_def)

lemma audio_shape:
  "(audio_content_node w state =
      ([], Inr [(''final_status'', PStr ''FAIL''), (''final_report'', PStr skipped_report)]))
   \<or> (\<exists>e calls. audio_content_node w state = (calls, Inl e) \<and> \<not> list_ex is_invoke calls)
   \<or> (\<exists>query sys usr. audio_content_node w state =
         ([Search query 3, Invoke sys usr],
          Inr (case seq (llm_invoke w sys usr) (parse_response w) of
                 Inl e \<Rightarrow> audit_failure e
               | Inr u \<Rightarrow> u)))"
proof (cases "truthy (dict_get state ''transcript'' (PStr []))")
  case False
  then show ?thesis by (simp add: audio_skip)
next
  case tr: True
  show ?thesis
  proof (cases "new_clients w")
    case (Some e)
    with tr have "audio_content_node w state = ([], Inl e)"
      by (simp add: audio_content_node_def)
    then show ?thesis by simp
  next
    case nc: None
    show ?thesis
    proof (cases "py_join [] (dict_get state ''ocr_text'' (PList []))")
      case (Inl e)
      with tr nc have "audio_content_node w state = ([], Inl e)"
        by (simp add: audio_content_node_def Let_def)
      then show ?thesis by simp
    next
      case jn: (Inr joined)
      let ?q = "fmt w (dict_get state ''transcript'' (PStr [])) @ '' '' @ joined"
      show ?thesis
      proof (cases "similarity_search w ?q 3")
        case (Inl e)
        with tr nc jn have "audio_content_node w state = ([Search ?q 3], Inl e)"
          by (simp add: audio_content_node_def Let_def)
        then show ?thesis by (simp add: is_invoke_def)
      next
        case (Inr docs)
        from audio_run [OF tr nc jn Inr] show ?thesis by blast
      qed
    qed
  qed
qed

lemma audio_cases:
  assumes "audio_content_node w state = (calls, Inr update)"
  shows "(calls = [] \<and>
          update = [(''final_status'', PStr ''FAIL''), (''final_report'', PStr skipped_report)])
       \<or> (\<exists>query sys usr. calls = [Search query 3, Invoke sys usr] \<and>
             update = (case seq (llm_invoke w sys usr) (parse_response w) of
                         Inl e \<Rightarrow> audit_failure e
                       | Inr u \<Rightarrow> u))"
  using audio_shape [of w state] assms by auto

lemma audio_invoked:
  assumes "audio_content_node w state = (calls, r)" and "Invoke sys usr \<in> set calls"
  shows "r = Inr (case seq (llm_invoke w sys usr) (parse_response w) of
                    Inl e \<Rightarrow> audit_failure e
                  | Inr u \<Rightarrow> u)"
  using audio_shape [of w state] assms
  by (auto simp: list_ex_iff is_invoke_def)

lemma parse_response_object:
  assumes "unfence content = Inr text" and "json_loads w (strip text) = Inr (PDict d)"
  shows "parse_response w content =
           Inr [(''compliance_results'', dict_get d ''compliance_results'' (PList [])),
                (''final_status'', dict_get d ''status'' (PStr ''FAIL'')),
                (''final_report'', dict_get d ''final_report'' (PStr ''No report generated''))]"
  using assms by (simp add: parse_response_def)

lemma py_get_not_dict:
  "\<not> is_dict v \<Longrightarrow>
   py_get v k dflt =
     Inl (AttributeError (quoted (type_name v) @ '' object has no attribute '' @ quoted ''get''))"
  by (cases v) (simp_all add: py_get_def is_dict_def)

lemma parse_response_not_object:
  assumes "unfence content = Inr text" and "json_loads w (strip text) = Inr v"
    and "\<not> is_dict v"
  shows "parse_response w content =
           Inl (AttributeError
                  (quoted (type_name v) @ '' object has no attribute '' @ quoted ''get''))"
  using assms by (simp add: parse_response_def py_get_not_dict del: py_get_dict)

lemma parse_response_Inr:
  assumes "parse_response w content = Inr update"
  shows "\<exists>text d. unfence content = Inr text \<and> json_loads w (strip text) = Inr (PDict d) \<and>
           update =
             [(''compliance_results'', dict_get d ''compliance_results'' (PList [])),
              (''final_status'', dict_get d ''status'' (PStr ''FAIL'')),
              (''final_report'', dict_get d ''final_report'' (PStr ''No report generated''))]"
proof (cases "unfence content")
  case (Inl e)
  with assms show ?thesis by (simp add: parse_response_def)
next
  case (Inr body)
  note unf = this
  show ?thesis
  proof (cases "json_loads w (strip body)")
    case (Inl e)
    with assms unf show ?thesis by (simp add: parse_response_def)
  next
    case (Inr v)
    show ?thesis
    proof (cases "is_dict v")
      case True
      then obtain d where "v = PDict d" by (auto dest: is_dictE)
      with assms unf Inr show ?thesis
        using parse_response_object [OF unf, of w d] by auto
    next
      case False
      from parse_response_not_object [OF unf Inr False] assms show ?thesis by simp
    qed
  qed
qed

lemma unfence_plain: "\<not> contains content ''``'' \<Longrightarrow> unfence content = Inr content"
  by (simp add: unfence_def)

lemma match_here_no_fence: "\<not> starts_with s fence \<Longrightarrow> match_here s = None"
  by (simp add: match_here_def)

lemma re_search_skip: "CHR 0x60 \<notin> set b \<Longrightarrow> re_search (b @ t) = re_search t"
proof (induction b)
  case Nil
  then show ?case by simp
next
  case (Cons c b)
  then have "\<not> starts_with (c # b @ t) fence"
    by (auto simp: starts_with_def fence_def)
  with Cons show ?case
    by (simp add: match_here_no_fence)
qed

lemma closing_not_fence:
  "CHR 0x60 \<notin> set b \<Longrightarrow> \<not> starts_with (b @ ''\<newline>```'') fence"
  by (cases b) (auto simp: starts_with_def fence_def)

lemma re_search_closing: "re_search ''\<newline>```'' = None"
  by (simp add: match_here_def match_group_def starts_with_def fence_def)

lemma re_search_fenced_json:
  assumes "CHR 0x60 \<notin> set body"
  shows "re_search (''```json\<newline>'' @ body @ ''\<newline>```'') = None"
proof -
  let ?x = "body @ ''\<newline>```''"
  have nf: "\<not> starts_with ?x fence"
    by (rule closing_not_fence [OF assms])
  have m0: "match_here (''```json\<newline>'' @ ?x) = None"
    using nf by (simp add: match_here_def match_group_def starts_with_def fence_def)
  have m1: "match_here (''``json\<newline>'' @ ?x) = None"
    by (simp add: match_here_def starts_with_def fence_def)
  have m2: "match_here (''`json\<newline>'' @ ?x) = None"
    by (simp add: match_here_def starts_with_def fence_def)
  have "re_search (''json\<newline>'' @ ?x) = re_search ?x"
    by (rule re_search_skip) simp
  also have "\<dots> = re_search ''\<newline>```''"
    by (rule re_search_skip [OF assms])
  also have "\<dots> = None"
    by (rule re_search_closing)
  finally have rest: "re_search (''json\<newline>'' @ ?x) = None" .
  from m0 m1 m2 rest show ?thesis by simp
qed

lemma re_search_fenced_plain:
  assumes "CHR 0x60 \<notin> set body"
  shows "re_search (''```\<newline>'' @ body @ ''\<newline>```'') = None"
proof -
  let ?x = "body @ ''\<newline>```''"
  have nf: "\<not> starts_with ?x fence"
    by (rule closing_not_fence [OF assms])
  have m0: "match_here (''```\<newline>'' @ ?x) = None"
    using nf by (simp add: match_here_def match_group_def starts_with_def fence_def)
  have m1: "match_here (''``\<newline>'' @ ?x) = None"
    by (simp add: match_here_def starts_with_def fence_def)
  have m2: "match_here (''`\<newline>'' @ ?x) = None"
    by (simp add: match_here_def starts_with_def fence_def)
  have "re_search (''\<newline>'' @ ?x) = re_search ?x"
    by (rule re_search_skip) simp
  also have "\<dots> = re_search ''\<newline>```''"
    by (rule re_search_skip [OF assms])
  also have "\<dots> = None"
    by (rule re_search_closing)
  finally have rest: "re_search (''\<newline>'' @ ?x) = None" .
  from m0 m1 m2 rest show ?thesis by simp
qed

lemma unfence_fenced:
  assumes "CHR 0x60 \<notin> set body"
    and "opening = ''```json\<newline>'' \<or> opening = ''```\<newline>''"
  shows "unfence (opening @ body @ ''\<newline>```'') = Inl group_error"
proof -
  from assms(2) have c: "contains (opening @ body @ ''\<newline>```'') ''``''"
    by (auto simp: starts_with_def)
  from assms(2) have "re_search (opening @ body @ ''\<newline>```'') = None"
    using re_search_fenced_json [OF assms(1)] re_search_fenced_plain [OF assms(1)] by auto
  with c show ?thesis
    by (simp add: unfence_def group_error_def)
qed

subsection \<open>The auditor in the stub world\<close>

lemma stub_run:
  "audio_content_node (stub_world polls answer) stub_state =
     ([Search ''Our product cures everything  SALE'' 3,
       Invoke stub_system (stub_user (stub_world polls answer))],
      Inr (case parse_response (stub_world polls answer) answer of
             Inl e \<Rightarrow> audit_failure e
           | Inr u \<Rightarrow> u))"
proof -
  let ?w = "stub_world polls answer"
  have tr: "dict_get stub_state ''transcript'' (PStr []) = PStr ''Our product cures everything ''"
    by (simp add: stub_state_def stub_inputs_def initial_inputs_def dict_get_def)
  have oc: "dict_get stub_state ''ocr_text'' (PList []) = PList [PStr ''SALE'', PStr []]"
    by (simp add: stub_state_def stub_inputs_def initial_inputs_def dict_get_def)
  have h1: "truthy (dict_get stub_state ''transcript'' (PStr []))"
    by (simp add: tr)
  have h2: "new_clients ?w = None"
    by (simp add: stub_world_def)
  have h3: "py_join [] (dict_get stub_state ''ocr_text'' (PList [])) = Inr ''SALE''"
    by (simp add: oc py_join_def py_iter_def)
  have h4: "similarity_search ?w
              (fmt ?w (dict_get stub_state ''transcript'' (PStr [])) @ '' '' @ ''SALE'') 3
            = Inr [''Claims must be verified.'']"
    by (simp add: stub_world_def)
  have llm: "llm_invoke ?w s u = Inr answer" for s u
    by (simp add: stub_world_def)
  from audio_run [OF h1 h2 h3 h4] show ?thesis
    by (simp add: tr oc fmt_def llm stub_system_def stub_user_def)
qed

lemma stub_llm: "llm_invoke (stub_world polls answer) s u = Inr answer"
  by (simp add: stub_world_def)

lemma stub_json: "json_loads (stub_world polls answer) = stub_loads"
  by (simp add: stub_world_def)

lemma stub_answer:
  assumes "unfence a = Inr a" and "strip a = a" and "stub_loads a = Inr (PDict d)"
  shows "audio_content_node (stub_world polls a) stub_state =
           ([Search ''Our product cures everything  SALE'' 3,
             Invoke stub_system (stub_user (stub_world polls a))],
            Inr [(''compliance_results'', dict_get d ''compliance_results'' (PList [])),
                 (''final_status'', dict_get d ''status'' (PStr ''FAIL'')),
                 (''final_report'', dict_get d ''final_report'' (PStr ''No report generated''))])"
proof -
  have "json_loads (stub_world polls a) (strip a) = Inr (PDict d)"
    using assms by (simp add: stub_json)
  from parse_response_object [OF assms(1) this] show ?thesis
    by (simp add: stub_run)
qed

lemma pass_answer_plain:
  "unfence pass_answer = Inr pass_answer" "strip pass_answer = pass_answer"
  by (simp_all add: unfence_def pass_answer_def starts_with_def strip_def is_space_def)

lemma pass_answer_loads:
  "stub_loads pass_answer =
     Inr (PDict [(''status'', PStr ''PASS''), (''compliance_results'', PList []),
                 (''final_report'', PStr ''ok'')])"
  by (simp add: stub_loads_def pass_answer_def)

lemma status_only_plain:
  "unfence status_only_answer = Inr status_only_answer"
  "strip status_only_answer = status_only_answer"
  "stub_loads status_only_answer = Inr (PDict [(''status'', PStr ''PASS'')])"
  by (simp_all add: unfence_def status_only_answer_def starts_with_def strip_def is_space_def
      stub_loads_def)

lemma report_only_plain:
  "unfence report_only_answer = Inr report_only_answer"
  "strip report_only_answer = report_only_answer"
  "stub_loads report_only_answer = Inr (PDict [(''final_report'', PStr ''x'')])"
  by (simp_all add: unfence_def report_only_answer_def starts_with_def strip_def is_space_def
      stub_loads_def)

lemma banana_plain:
  "unfence banana_answer = Inr banana_answer"
  "strip banana_answer = banana_answer"
  "stub_loads banana_answer =
     Inr (PDict [(''status'', PStr ''PASS''),
                 (''compliance_results'', PList [issue ''Tone'' ''BANANA'' ''odd'']),
                 (''final_report'', PStr ''r'')])"
  by (simp_all add: unfence_def banana_answer_def starts_with_def strip_def is_space_def
      stub_loads_def)

lemma refusal_plain:
  "unfence refusal_answer = Inr refusal_answer"
  "strip refusal_answer = refusal_answer"
  "stub_loads refusal_answer =
     Inl (Exn ''JSONDecodeError'' ''Expecting value: line 1 column 1 (char 0)'')"
  by (simp_all add: unfence_def refusal_answer_def starts_with_def strip_def is_space_def
      stub_loads_def)

section \<open>The short circuit on an empty transcript\<close>

text \<open>
  Claim C1. For every state whose transcript is the empty string the auditor returns
  the status \<open>FAIL\<close> with the fixed report, makes no call at all (so the language
  model is not invoked), and returns no \<open>compliance_results\<close>: merged into the state,
  its update leaves the results as they were.
\<close>

theorem empty_transcript_short_circuit:
  assumes "map_of state ''transcript'' = Some (PStr [])"
  shows "audio_content_node w state =
           ([], Inr [(''final_status'', PStr ''FAIL''),
                     (''final_report'',
                      PStr ''Audit skipped because video processing failed (No transcript)'')]) \<and>
         map_of (merge_state state
                   [(''final_status'', PStr ''FAIL''),
                    (''final_report'',
                     PStr ''Audit skipped because video processing failed (No transcript)'')])
           ''compliance_results'' = map_of state ''compliance_results''"
proof -
  from assms have "\<not> truthy (dict_get state ''transcript'' (PStr []))"
    by (simp add: dict_get_def)
  from audio_skip [OF this] show ?thesis
    by (simp add: skipped_report_def map_of_dict_set)
qed

theorem empty_transcript_short_circuit_witness:
  "map_of ((''transcript'', PStr []) # stub_inputs) ''transcript'' = Some (PStr []) \<and>
   audio_content_node (stub_world stub_polls ''{}'') ((''transcript'', PStr []) # stub_inputs) =
     ([], Inr [(''final_status'', PStr ''FAIL''),
               (''final_report'',
                PStr ''Audit skipped because video processing failed (No transcript)'')]) \<and>
   map_of (merge_state ((''transcript'', PStr []) # stub_inputs)
             [(''final_status'', PStr ''FAIL''),
              (''final_report'',
               PStr ''Audit skipped because video processing failed (No transcript)'')])
     ''compliance_results'' = Some (PList [])"
proof -
  have h: "map_of ((''transcript'', PStr []) # stub_inputs) ''transcript'' = Some (PStr [])"
    by simp
  have c: "map_of ((''transcript'', PStr []) # stub_inputs) ''compliance_results'' = Some (PList [])"
    by (simp add: stub_inputs_def initial_inputs_def)
  from empty_transcript_short_circuit [OF h, of "stub_world stub_polls ''{}''"] h c
  show ?thesis by simp
qed

section \<open>Fenced answers of the model\<close>

text \<open>
  Claim C2. The claim says that an object wrapped in a fenced code block parses like the
  object itself. The pattern of the code admits at most one character between the
  fences, so for every body without a backquote, fenced with \<open>```json\<close> or with
  \<open>```\<close>, the search finds nothing and the auditor returns the failure record of
  the exception, whatever the decoder would make of the body.
\<close>

theorem fenced_response_fails:
  assumes "CHR 0x60 \<notin> set body"
    and "opening = ''```json\<newline>'' \<or> opening = ''```\<newline>''"
    and "audio_content_node w state = (calls, r)"
    and "Invoke sys usr \<in> set calls"
    and "llm_invoke w sys usr = Inr (opening @ body @ ''\<newline>```'')"
  shows "r = Inr [(''errors'', PList [PStr (str_exn group_error)]),
                  (''final_status'', PStr ''FAIL'')]"
  using audio_invoked [OF assms(3,4)] unfence_fenced [OF assms(1,2)] assms(5)
  by (simp add: parse_response_def audit_failure_def)

theorem fenced_response_fails_witness:
  "CHR 0x60 \<notin> set pass_answer \<and>
   fenced_answer = ''```json\<newline>'' @ pass_answer @ ''\<newline>```'' \<and>
   audio_content_node (stub_world stub_polls fenced_answer) stub_state =
     ([Search ''Our product cures everything  SALE'' 3,
       Invoke stub_system (stub_user (stub_world stub_polls fenced_answer))],
      Inr [(''errors'', PList [PStr (str_exn group_error)]),
           (''final_status'', PStr ''FAIL'')]) \<and>
   audio_content_node (stub_world stub_polls pass_answer) stub_state =
     ([Search ''Our product cures everything  SALE'' 3,
       Invoke stub_system (stub_user (stub_world stub_polls pass_answer))],
      Inr [(''compliance_results'', PList []),
           (''final_status'', PStr ''PASS''),
           (''final_report'', PStr ''ok'')])"
proof -
  let ?w = "stub_world stub_polls fenced_answer"
  have h1: "CHR 0x60 \<notin> set pass_answer"
    by (simp add: pass_answer_def)
  have fa: "fenced_answer = ''```json\<newline>'' @ pass_answer @ ''\<newline>```''"
    by (simp add: fenced_answer_def pass_answer_def)
  obtain calls r where run: "audio_content_node ?w stub_state = (calls, r)"
    by (cases "audio_content_node ?w stub_state")
  with stub_run [of stub_polls fenced_answer]
  have calls: "calls = [Search ''Our product cures everything  SALE'' 3,
                        Invoke stub_system (stub_user ?w)]"
    by simp
  then have inv: "Invoke stub_system (stub_user ?w) \<in> set calls"
    by simp
  have llm: "llm_invoke ?w stub_system (stub_user ?w) =
               Inr (''```json\<newline>'' @ pass_answer @ ''\<newline>```'')"
    unfolding fa [symmetric] by (rule stub_llm)
  have "r = Inr [(''errors'', PList [PStr (str_exn group_error)]),
                 (''final_status'', PStr ''FAIL'')]"
    by (rule fenced_response_fails [OF h1 _ run inv llm]) simp
  with run calls h1 fa
    stub_answer [OF pass_answer_plain pass_answer_loads, of stub_polls]
  show ?thesis
    by (simp add: dict_get_def)
qed

section \<open>Answers that are not the required object\<close>

text \<open>
  Claim C5, as stated, fails: an object that has \<open>status\<close> and lacks the other
  keys keeps its status, and an object without \<open>status\<close> gets \<open>FAIL\<close> with its
  own report and no recorded error.
\<close>

theorem missing_keys_counterexample:
  "snd (audio_content_node (stub_world stub_polls status_only_answer) stub_state) =
     Inr [(''compliance_results'', PList []),
          (''final_status'', PStr ''PASS''),
          (''final_report'', PStr ''No report generated'')] \<and>
   snd (audio_content_node (stub_world stub_polls report_only_answer) stub_state) =
     Inr [(''compliance_results'', PList []),
          (''final_status'', PStr ''FAIL''),
          (''final_report'', PStr ''x'')]"
  by (simp add: stub_answer [OF status_only_plain] stub_answer [OF report_only_plain]
      dict_get_def)

text \<open>
  Claim C5, amended. Once the model is invoked the auditor returns an update and no
  exception leaves it. When the call of the model, the removal of the fence or the
  decoder raises, or the decoded value is not an object, the update is the failure
  record: the message of the exception as only entry of \<open>errors\<close> and the status
  \<open>FAIL\<close>. When the decoded object has no \<open>status\<close>, the status is \<open>FAIL\<close>,
  no error is recorded, and the results and the report are those of the object or their
  defaults. When the decoded object has a \<open>status\<close>, that value is the status, also
  when the other keys are missing.
\<close>

theorem malformed_response_recorded:
  assumes "audio_content_node w state = (calls, r)"
    and "Invoke sys usr \<in> set calls"
  shows "\<exists>update. r = Inr update \<and>
     (\<forall>e. llm_invoke w sys usr = Inl e \<longrightarrow> update = audit_failure e) \<and>
     (\<forall>content. llm_invoke w sys usr = Inr content \<longrightarrow>
        (\<forall>e. unfence content = Inl e \<longrightarrow> update = audit_failure e) \<and>
        (\<forall>body. unfence content = Inr body \<longrightarrow>
           (\<forall>e. json_loads w (strip body) = Inl e \<longrightarrow> update = audit_failure e) \<and>
           (\<forall>v. json_loads w (strip body) = Inr v \<and> \<not> is_dict v \<longrightarrow>
              update = audit_failure (AttributeError
                (quoted (type_name v) @ '' object has no attribute '' @ quoted ''get''))) \<and>
           (\<forall>d. json_loads w (strip body) = Inr (PDict d) \<and> map_of d ''status'' = None \<longrightarrow>
              update =
                [(''compliance_results'', dict_get d ''compliance_results'' (PList [])),
                 (''final_status'', PStr ''FAIL''),
                 (''final_report'',
                  dict_get d ''final_report'' (PStr ''No report generated''))]) \<and>
           (\<forall>d v. json_loads w (strip body) = Inr (PDict d) \<and> map_of d ''status'' = Some v \<longrightarrow>
              update =
                [(''compliance_results'', dict_get d ''compliance_results'' (PList [])),
                 (''final_status'', v),
                 (''final_report'',
                  dict_get d ''final_report'' (PStr ''No report generated''))])))"
proof -
  let ?u = "case seq (llm_invoke w sys usr) (parse_response w) of
              Inl e \<Rightarrow> audit_failure e
            | Inr u \<Rightarrow> u"
  have r: "r = Inr ?u"
    by (rule audio_invoked [OF assms])
  have a: "llm_invoke w sys usr = Inl e \<Longrightarrow> ?u = audit_failure e" for e
    by simp
  have b: "llm_invoke w sys usr = Inr content \<Longrightarrow> unfence content = Inl e \<Longrightarrow>
           ?u = audit_failure e" for content e
    by (simp add: parse_response_def)
  have c: "llm_invoke w sys usr = Inr content \<Longrightarrow> unfence content = Inr body \<Longrightarrow>
           json_loads w (strip body) = Inl e \<Longrightarrow> ?u = audit_failure e" for content body e
    by (simp add: parse_response_def)
  have d: "llm_invoke w sys usr = Inr content \<Longrightarrow> unfence content = Inr body \<Longrightarrow>
           json_loads w (strip body) = Inr v \<Longrightarrow> \<not> is_dict v \<Longrightarrow>
           ?u = audit_failure (AttributeError
                  (quoted (type_name v) @ '' object has no attribute '' @ quoted ''get''))"
    for content body v
    using parse_response_not_object [of content body w v] by simp
  have e: "llm_invoke w sys usr = Inr content \<Longrightarrow> unfence content = Inr body \<Longrightarrow>
           json_loads w (strip body) = Inr (PDict d) \<Longrightarrow> map_of d ''status'' = None \<Longrightarrow>
           ?u = [(''compliance_results'', dict_get d ''compliance_results'' (PList [])),
                 (''final_status'', PStr ''FAIL''),
                 (''final_report'',
                  dict_get d ''final_report'' (PStr ''No report generated''))]"
    for content body d
    using parse_response_object [of content body w d] by (simp add: dict_get_def)
  have f: "llm_invoke w sys usr = Inr content \<Longrightarrow> unfence content = Inr body \<Longrightarrow>
           json_loads w (strip body) = Inr (PDict d) \<Longrightarrow> map_of d ''status'' = Some v \<Longrightarrow>
           ?u = [(''compliance_results'', dict_get d ''compliance_results'' (PList [])),
                 (''final_status'', v),
                 (''final_report'',
                  dict_get d ''final_report'' (PStr ''No report generated''))]"
    for content body d v
    using parse_response_object [of content body w d] by (simp add: dict_get_def)
  show ?thesis
    apply (intro exI [of _ ?u] conjI allI impI)
    subgoal by (rule r)
    subgoal by (rule a)
    subgoal by (rule b)
    subgoal by (rule c)
    subgoal by (elim conjE, rule d, assumption+)
    subgoal by (elim conjE, rule e, assumption+)
    subgoal by (elim conjE, rule f, assumption+)
    done
qed

theorem malformed_response_recorded_witness:
  "audio_content_node (stub_world stub_polls refusal_answer) stub_state =
     ([Search ''Our product cures everything  SALE'' 3,
       Invoke stub_system (stub_user (stub_world stub_polls refusal_answer))],
      Inr [(''errors'', PList [PStr ''Expecting value: line 1 column 1 (char 0)'']),
           (''final_status'', PStr ''FAIL'')])"
proof -
  let ?w = "stub_world stub_polls refusal_answer"
  obtain calls r where run: "audio_content_node ?w stub_state = (calls, r)"
    by (cases "audio_content_node ?w stub_state")
  with stub_run [of stub_polls refusal_answer]
  have calls: "calls = [Search ''Our product cures everything  SALE'' 3,
                        Invoke stub_system (stub_user ?w)]"
    by simp
  then have inv: "Invoke stub_system (stub_user ?w) \<in> set calls"
    by simp
  have js: "json_loads ?w (strip refusal_answer) =
              Inl (Exn ''JSONDecodeError'' ''Expecting value: line 1 column 1 (char 0)'')"
    by (simp add: stub_json refusal_plain)
  from malformed_response_recorded [OF run inv] obtain update where
    r: "r = Inr update"
    and u: "\<forall>content. llm_invoke ?w stub_system (stub_user ?w) = Inr content \<longrightarrow>
        (\<forall>e. unfence content = Inl e \<longrightarrow> update = audit_failure e) \<and>
        (\<forall>body. unfence content = Inr body \<longrightarrow>
           (\<forall>e. json_loads ?w (strip body) = Inl e \<longrightarrow> update = audit_failure e) \<and>
           (\<forall>v. json_loads ?w (strip body) = Inr v \<and> \<not> is_dict v \<longrightarrow>
              update = audit_failure (AttributeError
                (quoted (type_name v) @ '' object has no attribute '' @ quoted ''get''))) \<and>
           (\<forall>d. json_loads ?w (strip body) = Inr (PDict d) \<and> map_of d ''status'' = None \<longrightarrow>
              update =
                [(''compliance_results'', dict_get d ''compliance_results'' (PList [])),
                 (''final_status'', PStr ''FAIL''),
                 (''final_report'',
                  dict_get d ''final_report'' (PStr ''No report generated''))]) \<and>
           (\<forall>d v. json_loads ?w (strip body) = Inr (PDict d) \<and> map_of d ''status'' = Some v \<longrightarrow>
              update =
                [(''compliance_results'', dict_get d ''compliance_results'' (PList [])),
                 (''final_status'', v),
                 (''final_report'',
                  dict_get d ''final_report'' (PStr ''No report generated''))]))"
    by blast
  from u stub_llm [of stub_polls refusal_answer] refusal_plain(1) js
  have "update = audit_failure (Exn ''JSONDecodeError'' ''Expecting value: line 1 column 1 (char 0)'')"
    by blast
  with run calls r show ?thesis
    by (simp add: audit_failure_def)
qed

section \<open>The three keys and their defaults\<close>

text \<open>
  Claim C6. For every answer that decodes to an object, the update of the auditor has
  as \<open>final_status\<close> the value of \<open>status\<close>, \<open>FAIL\<close> when absent; as
  \<open>compliance_results\<close> the value of that key, the empty list when absent; as
  \<open>final_report\<close> the value of that key, the placeholder when absent.
\<close>

theorem parsed_object_defaults:
  assumes "audio_content_node w state = (calls, r)"
    and "Invoke sys usr \<in> set calls"
    and "llm_invoke w sys usr = Inr content"
    and "unfence content = Inr body"
    and "json_loads w (strip body) = Inr (PDict d)"
  shows "r = Inr [(''compliance_results'',
                   case map_of d ''compliance_results'' of Some v \<Rightarrow> v | None \<Rightarrow> PList []),
                  (''final_status'',
                   case map_of d ''status'' of Some v \<Rightarrow> v | None \<Rightarrow> PStr ''FAIL''),
                  (''final_report'',
                   case map_of d ''final_report'' of
                     Some v \<Rightarrow> v
                   | None \<Rightarrow> PStr ''No report generated'')]"
  using audio_invoked [OF assms(1,2)] parse_response_object [OF assms(4,5)] assms(3)
  by (simp add: dict_get_def)

theorem parsed_object_defaults_witness:
  "audio_content_node (stub_world stub_polls pass_answer) stub_state =
     ([Search ''Our product cures everything  SALE'' 3,
       Invoke stub_system (stub_user (stub_world stub_polls pass_answer))],
      Inr [(''compliance_results'', PList []),
           (''final_status'', PStr ''PASS''),
           (''final_report'', PStr ''ok'')]) \<and>
   llm_invoke (stub_world stub_polls pass_answer) stub_system
     (stub_user (stub_world stub_polls pass_answer)) = Inr pass_answer \<and>
   unfence pass_answer = Inr pass_answer \<and>
   json_loads (stub_world stub_polls pass_answer) (strip pass_answer) =
     Inr (PDict [(''status'', PStr ''PASS''), (''compliance_results'', PList []),
                 (''final_report'', PStr ''ok'')])"
proof -
  let ?w = "stub_world stub_polls pass_answer"
  obtain calls r where run: "audio_content_node ?w stub_state = (calls, r)"
    by (cases "audio_content_node ?w stub_state")
  with stub_run [of stub_polls pass_answer]
  have calls: "calls = [Search ''Our product cures everything  SALE'' 3,
                        Invoke stub_system (stub_user ?w)]"
    by simp
  then have inv: "Invoke stub_system (stub_user ?w) \<in> set calls"
    by simp
  have js: "json_loads ?w (strip pass_answer) =
              Inr (PDict [(''status'', PStr ''PASS''), (''compliance_results'', PList []),
                          (''final_report'', PStr ''ok'')])"
    by (simp add: stub_json pass_answer_plain) (simp add: stub_loads_def pass_answer_def)
  from parsed_object_defaults [OF run inv stub_llm pass_answer_plain(1) js]
  have "r = Inr [(''compliance_results'', PList []),
                 (''final_status'', PStr ''PASS''),
                 (''final_report'', PStr ''ok'')]"
    by simp
  with run calls js show ?thesis
    by (simp add: stub_llm pass_answer_plain)
qed

section \<open>Severities\<close>

text \<open>
  Claim C9, as stated, fails: an issue whose severity is \<open>BANANA\<close> is returned in
  \<open>compliance_results\<close>, with the status of the object and no recorded error.
\<close>

theorem unknown_severity_counterexample:
  "snd (audio_content_node (stub_world stub_polls banana_answer) stub_state) =
     Inr [(''compliance_results'', PList [issue ''Tone'' ''BANANA'' ''odd'']),
          (''final_status'', PStr ''PASS''),
          (''final_report'', PStr ''r'')]"
  by (simp add: stub_answer [OF banana_plain] dict_get_def)

text \<open>
  Claim C9, amended. The auditor does not inspect the issues: whatever list the decoded
  object holds under \<open>compliance_results\<close> is returned unchanged, no error is
  recorded, and the status is that of the object (\<open>FAIL\<close> when absent).
\<close>

theorem severity_not_validated:
  assumes "audio_content_node w state = (calls, r)"
    and "Invoke sys usr \<in> set calls"
    and "llm_invoke w sys usr = Inr content"
    and "unfence content = Inr body"
    and "json_loads w (strip body) = Inr (PDict d)"
    and "map_of d ''compliance_results'' = Some (PList issues)"
  shows "\<exists>update. r = Inr update \<and>
           map_of update ''compliance_results'' = Some (PList issues) \<and>
           map_of update ''errors'' = None \<and>
           map_of update ''final_status'' = Some (dict_get d ''status'' (PStr ''FAIL''))"
  using audio_invoked [OF assms(1,2)] parse_response_object [OF assms(4,5)] assms(3,6)
  by (simp add: dict_get_def)

theorem severity_not_validated_witness:
  "audio_content_node (stub_world stub_polls banana_answer) stub_state =
     ([Search ''Our product cures everything  SALE'' 3,
       Invoke stub_system (stub_user (stub_world stub_polls banana_answer))],
      snd (audio_content_node (stub_world stub_polls banana_answer) stub_state)) \<and>
   llm_invoke (stub_world stub_polls banana_answer) stub_system
     (stub_user (stub_world stub_polls banana_answer)) = Inr banana_answer \<and>
   unfence banana_answer = Inr banana_answer \<and>
   json_loads (stub_world stub_polls banana_answer) (strip banana_answer) =
     Inr (PDict [(''status'', PStr ''PASS''),
                 (''compliance_results'', PList [issue ''Tone'' ''BANANA'' ''odd'']),
                 (''final_report'', PStr ''r'')]) \<and>
   (\<exists>update. snd (audio_content_node (stub_world stub_polls banana_answer) stub_state) = Inr update \<and>
      map_of update ''compliance_results'' = Some (PList [issue ''Tone'' ''BANANA'' ''odd'']) \<and>
      map_of update ''errors'' = None \<and>
      map_of update ''final_status'' = Some (PStr ''PASS''))"
proof -
  let ?w = "stub_world stub_polls banana_answer"
  obtain calls r where run: "audio_content_node ?w stub_state = (calls, r)"
    by (cases "audio_content_node ?w stub_state")
  with stub_run [of stub_polls banana_answer]
  have calls: "calls = [Search ''Our product cures everything  SALE'' 3,
                        Invoke stub_system (stub_user ?w)]"
    by simp
  then have inv: "Invoke stub_system (stub_user ?w) \<in> set calls"
    by simp
  have js: "json_loads ?w (strip banana_answer) =
     Inr (PDict [(''status'', PStr ''PASS''),
                 (''compliance_results'', PList [issue ''Tone'' ''BANANA'' ''odd'']),
                 (''final_report'', PStr ''r'')])"
    by (simp add: stub_json banana_plain)
  have "\<exists>update. r = Inr update \<and>
      map_of update ''compliance_results'' = Some (PList [issue ''Tone'' ''BANANA'' ''odd'']) \<and>
      map_of update ''errors'' = None \<and>
      map_of update ''final_status'' =
        Some (dict_get [(''status'', PStr ''PASS''),
                 (''compliance_results'', PList [issue ''Tone'' ''BANANA'' ''odd'']),
                 (''final_report'', PStr ''r'')] ''status'' (PStr ''FAIL''))"
    by (rule severity_not_validated [OF run inv stub_llm banana_plain(1) js]) simp
  with run calls js show ?thesis
    by (simp add: stub_llm banana_plain dict_get_def)
qed

section \<open>The workflow: facts about a run\<close>

lemma index_node_cases:
  assumes "index_video_node w state = Some update"
  shows "(\<exists>e. index_video_body w state = Some (Inl e) \<and> update = index_failure e)
       \<or> index_video_body w state = Some (Inr update)"
  using assms
  by (auto simp: index_video_node_def split: option.splits sum.splits)

lemma invoke_cases:
  assumes "invoke w inputs = Some (calls, Inr final)"
  shows "\<exists>update1 update2.
           index_video_node w inputs = Some update1 \<and>
           audio_content_node w (merge_state inputs update1) = (calls, Inr update2) \<and>
           final = merge_state (merge_state inputs update1) update2"
  using assms
  by (auto simp: invoke_def Let_def split: option.splits prod.splits sum.splits)

lemma merged_skipped:
  "map_of (merge_state state
             [(''final_status'', PStr ''FAIL''), (''final_report'', PStr skipped_report)]) k =
     (if k = ''final_report'' then Some (PStr skipped_report)
      else if k = ''final_status'' then Some (PStr ''FAIL'')
      else map_of state k)"
  by (simp add: map_of_dict_set merge_value_def)

lemma merged_failure_status:
  "map_of (merge_state state (audit_failure e)) ''final_status'' = Some (PStr ''FAIL'')"
  by (simp add: audit_failure_def map_of_dict_set merge_value_def)

lemma merged_parsed:
  "map_of (merge_state state
             [(''compliance_results'', results), (''final_status'', status),
              (''final_report'', report)]) k =
     (if k = ''final_report'' then Some report
      else if k = ''final_status'' then Some status
      else if k = ''compliance_results'' then Some results
      else map_of state k)"
  by (simp add: map_of_dict_set merge_value_def)

lemma completed_run_status:
  assumes "invoke w inputs = Some (calls, Inr final)"
  shows "map_of final ''final_status'' = Some (PStr ''FAIL'')
       \<or> (\<exists>sys usr content body d.
             Invoke sys usr \<in> set calls \<and> llm_invoke w sys usr = Inr content \<and>
             unfence content = Inr body \<and> json_loads w (strip body) = Inr (PDict d) \<and>
             map_of final ''final_status'' = Some (dict_get d ''status'' (PStr ''FAIL'')) \<and>
             map_of final ''compliance_results'' =
               Some (dict_get d ''compliance_results'' (PList [])))"
proof -
  from invoke_cases [OF assms] obtain update1 update2 where
    run: "audio_content_node w (merge_state inputs update1) = (calls, Inr update2)"
    and final: "final = merge_state (merge_state inputs update1) update2"
    by blast
  from audio_cases [OF run] show ?thesis
  proof
    assume "calls = [] \<and>
            update2 = [(''final_status'', PStr ''FAIL''), (''final_report'', PStr skipped_report)]"
    then show ?thesis by (simp add: final merged_skipped del: merge_state.simps)
  next
    assume "\<exists>query sys usr. calls = [Search query 3, Invoke sys usr] \<and>
              update2 = (case seq (llm_invoke w sys usr) (parse_response w) of
                           Inl e \<Rightarrow> audit_failure e
                         | Inr u \<Rightarrow> u)"
    then obtain query sys usr where calls: "calls = [Search query 3, Invoke sys usr]"
      and u2: "update2 = (case seq (llm_invoke w sys usr) (parse_response w) of
                            Inl e \<Rightarrow> audit_failure e
                          | Inr u \<Rightarrow> u)"
      by blast
    show ?thesis
    proof (cases "seq (llm_invoke w sys usr) (parse_response w)")
      case (Inl e)
      with u2 show ?thesis by (simp add: final merged_failure_status del: merge_state.simps)
    next
      case (Inr u)
      then obtain content where llm: "llm_invoke w sys usr = Inr content"
        and pr: "parse_response w content = Inr u"
        by (cases "llm_invoke w sys usr") simp_all
      from parse_response_Inr [OF pr] obtain body d where
        unf: "unfence content = Inr body"
        and js: "json_loads w (strip body) = Inr (PDict d)"
        and u: "u = [(''compliance_results'', dict_get d ''compliance_results'' (PList [])),
                     (''final_status'', dict_get d ''status'' (PStr ''FAIL'')),
                     (''final_report'', dict_get d ''final_report'' (PStr ''No report generated''))]"
        by blast
      have "map_of final ''final_status'' = Some (dict_get d ''status'' (PStr ''FAIL''))"
        "map_of final ''compliance_results'' = Some (dict_get d ''compliance_results'' (PList []))"
        using u2 Inr by (simp_all add: final u merged_parsed del: merge_state.simps)
      with calls llm unf js show ?thesis by auto
    qed
  qed
qed

subsection \<open>The workflow in the stub world\<close>

lemma stub_new_service: "new_service (stub_world polls a) = Inr stub_service"
  by (simp add: new_service_def stub_world_def env_set_def env_str_def raising_def
      stub_service_def)

lemma stub_token:
  "get_account_token (stub_world polls a) stub_service = Inr (PStr ''vi-token'', stub_uploaded)"
  by (simp add: get_account_token_def get_access_token_def stub_world_def stub_service_def
      stub_uploaded_def env_set_def py_getitem_def)

lemma stub_token_cached:
  "get_account_token (stub_world polls a) stub_uploaded = Inr (PStr ''vi-token'', stub_uploaded)"
  by (simp add: get_account_token_def stub_uploaded_def)

lemma stub_upload:
  "upload_video (stub_world polls a) stub_service path name = Inr (PStr ''job1'', stub_uploaded)"
  by (simp add: upload_video_def stub_token) (simp add: stub_world_def raising_def dict_get_def)

lemma stub_wait:
  "wait_for_processing (stub_world polls a) stub_uploaded video_id = poll_loop polls"
  by (simp add: wait_for_processing_def stub_token_cached) (simp add: stub_world_def)

lemma stub_body_youtube:
  "index_video_body (stub_world polls a) stub_inputs =
     (case fst (poll_loop polls) of
        None \<Rightarrow> None
      | Some (Inl e) \<Rightarrow> Some (Inl e)
      | Some (Inr raw_insights) \<Rightarrow> Some (extract_data raw_insights))"
proof -
  have url: "dict_get stub_inputs ''video_url'' PNone = PStr ''https://youtu.be/abc''"
    "dict_get stub_inputs ''video_id'' (PStr ''vid_demo'') = PStr ''vid_1234abcd''"
    by (simp_all add: stub_inputs_def initial_inputs_def dict_get_def)
  have a: "py_in ''youtube.com'' (PStr ''https://youtu.be/abc'') = Inr False"
    by (simp add: py_in_def starts_with_def)
  have b: "py_in ''youtu.be'' (PStr ''https://youtu.be/abc'') = Inr True"
    by (simp add: py_in_def starts_with_def)
  have dl: "download_youtube_video (stub_world polls a) u p = Inr p" for u p
    by (simp add: download_youtube_video_def stub_world_def)
  have rm: "path_exists (stub_world polls a) p" "os_remove (stub_world polls a) p = None" for p
    by (simp_all add: stub_world_def)
  show ?thesis
    by (simp add: index_video_body_def url stub_new_service a b dl stub_upload rm raising_def
        stub_wait)
qed

lemma stub_body_vimeo:
  "index_video_body (stub_world polls a) vimeo_inputs =
     Some (Inl (Exception ''Please provide a valid URL for this test.''))"
proof -
  have url: "dict_get vimeo_inputs ''video_url'' PNone = PStr ''https://vimeo.com/1''"
    by (simp add: vimeo_inputs_def initial_inputs_def dict_get_def)
  have a: "py_in ''youtube.com'' (PStr ''https://vimeo.com/1'') = Inr False"
    by (simp add: py_in_def starts_with_def)
  have b: "py_in ''youtu.be'' (PStr ''https://vimeo.com/1'') = Inr False"
    by (simp add: py_in_def starts_with_def)
  show ?thesis
    by (simp add: index_video_body_def url stub_new_service a b)
qed

lemma stub_poll_processed: "poll_loop stub_polls = (Some (Inr (PDict processed_payload)), 3)"
  by (simp add: stub_polls_def ok_response_def processed_payload_def dict_get_def)

lemma stub_poll_quarantined:
  "poll_loop quarantined_polls = (Some (Inl (Exception ''Video quarantined'')), 2)"
  by (simp add: quarantined_polls_def ok_response_def dict_get_def)

lemma stub_extracted:
  "extract_data (PDict processed_payload) =
     Inr [(''transcript'', PStr ''Our product cures everything ''),
          (''ocr_text'', PList [PStr ''SALE'', PStr []]),
          (''metadata'', PDict [(''duration'', PInt 12), (''video_id'', PStr ''job1''),
                                (''platform'', PStr ''youtube'')])]"
  by (simp add: extract_data_def processed_payload_def dict_get_def py_iter_def py_join_def)

lemma stub_indexed:
  "index_video_node (stub_world stub_polls a) stub_inputs =
     Some [(''transcript'', PStr ''Our product cures everything ''),
           (''ocr_text'', PList [PStr ''SALE'', PStr []]),
           (''metadata'', PDict [(''duration'', PInt 12), (''video_id'', PStr ''job1''),
                                 (''platform'', PStr ''youtube'')])]"
  by (simp add: index_video_node_def stub_body_youtube stub_poll_processed stub_extracted)

lemma stub_merged:
  "merge_state stub_inputs
     [(''transcript'', PStr ''Our product cures everything ''),
      (''ocr_text'', PList [PStr ''SALE'', PStr []]),
      (''metadata'', PDict [(''duration'', PInt 12), (''video_id'', PStr ''job1''),
                            (''platform'', PStr ''youtube'')])] = stub_state"
  by (simp add: stub_state_def stub_inputs_def initial_inputs_def merge_value_def)

lemma stub_invoke:
  "invoke (stub_world stub_polls a) stub_inputs =
     Some ([Search ''Our product cures everything  SALE'' 3,
            Invoke stub_system (stub_user (stub_world stub_polls a))],
           Inr (merge_state stub_state
                  (case parse_response (stub_world stub_polls a) a of
                     Inl e \<Rightarrow> audit_failure e
                   | Inr u \<Rightarrow> u)))"
  by (simp add: invoke_def stub_indexed stub_merged stub_run del: merge_state.simps)

lemma stub_invoke_object:
  assumes "unfence a = Inr a" and "strip a = a" and "stub_loads a = Inr (PDict d)"
  shows "invoke (stub_world stub_polls a) stub_inputs =
     Some ([Search ''Our product cures everything  SALE'' 3,
            Invoke stub_system (stub_user (stub_world stub_polls a))],
           Inr (merge_state stub_state
                  [(''compliance_results'', dict_get d ''compliance_results'' (PList [])),
                   (''final_status'', dict_get d ''status'' (PStr ''FAIL'')),
                   (''final_report'',
                    dict_get d ''final_report'' (PStr ''No report generated''))]))"
proof -
  have "json_loads (stub_world stub_polls a) (strip a) = Inr (PDict d)"
    using assms by (simp add: stub_json)
  from parse_response_object [OF assms(1) this] show ?thesis
    by (simp add: stub_invoke del: merge_state.simps)
qed


lemma pass_issue_plain:
  "unfence pass_issue_answer = Inr pass_issue_answer"
  "strip pass_issue_answer = pass_issue_answer"
  "stub_loads pass_issue_answer =
     Inr (PDict [(''status'', PStr ''PASS''),
                 (''compliance_results'',
                  PList [issue ''Claim Validation'' ''CRITICAL'' ''cure''])])"
  by (simp_all add: unfence_def pass_issue_answer_def starts_with_def strip_def is_space_def
      stub_loads_def)

lemma pass_invoke:
  "invoke (stub_world stub_polls pass_answer) stub_inputs =
     Some ([Search ''Our product cures everything  SALE'' 3,
            Invoke stub_system (stub_user (stub_world stub_polls pass_answer))],
           Inr pass_final)"
  using stub_invoke_object [OF pass_answer_plain pass_answer_loads]
  by (simp add: pass_final_def dict_get_def del: merge_state.simps)

lemma pass_final_status: "map_of pass_final ''final_status'' = Some (PStr ''PASS'')"
  by (simp add: pass_final_def merged_parsed del: merge_state.simps)

section \<open>The status of a completed run\<close>




section \<open>Results of a passing run\<close>

text \<open>
  Claim C4, as stated, fails: an answer with status \<open>PASS\<close> and one issue gives a
  completed run with final status \<open>PASS\<close> and that issue in the results.
\<close>

theorem pass_with_issues_counterexample:
  "final_status (invoke (stub_world stub_polls pass_issue_answer) stub_inputs) =
     Some (PStr ''PASS'') \<and>
   final_results (invoke (stub_world stub_polls pass_issue_answer) stub_inputs) =
     Some (PList [issue ''Claim Validation'' ''CRITICAL'' ''cure''])"
  by (simp add: final_status_def final_results_def final_state_def
      stub_invoke_object [OF pass_issue_plain] merged_parsed dict_get_def
      del: merge_state.simps)

text \<open>
  Claim C4, amended. In a completed run with final status \<open>PASS\<close> the model was
  invoked, its answer decodes to an object with status \<open>PASS\<close>, and the results of
  the run are what that object holds under \<open>compliance_results\<close>: the empty list
  when the key is absent, and empty exactly when the model reports no issue.
\<close>

theorem pass_results_from_model:
  assumes "invoke w inputs = Some (calls, Inr final)"
    and "map_of final ''final_status'' = Some (PStr ''PASS'')"
  shows "\<exists>sys usr content body d.
           Invoke sys usr \<in> set calls \<and> llm_invoke w sys usr = Inr content \<and>
           unfence content = Inr body \<and> json_loads w (strip body) = Inr (PDict d) \<and>
           map_of d ''status'' = Some (PStr ''PASS'') \<and>
           map_of final ''compliance_results'' =
             Some (case map_of d ''compliance_results'' of Some v \<Rightarrow> v | None \<Rightarrow> PList [])"
proof -
  from completed_run_status [OF assms(1)] assms(2) obtain sys usr content body d where
    f: "Invoke sys usr \<in> set calls" "llm_invoke w sys usr = Inr content"
       "unfence content = Inr body" "json_loads w (strip body) = Inr (PDict d)"
    and st: "map_of final ''final_status'' = Some (dict_get d ''status'' (PStr ''FAIL''))"
    and cr: "map_of final ''compliance_results'' =
               Some (dict_get d ''compliance_results'' (PList []))"
    by auto
  from st assms(2) have "map_of d ''status'' = Some (PStr ''PASS'')"
    by (cases "map_of d ''status''") (simp_all add: dict_get_def)
  moreover from cr have "map_of final ''compliance_results'' =
      Some (case map_of d ''compliance_results'' of Some v \<Rightarrow> v | None \<Rightarrow> PList [])"
    by (simp add: dict_get_def)
  ultimately show ?thesis
    using f by blast
qed

theorem pass_results_from_model_witness:
  "invoke (stub_world stub_polls pass_answer) stub_inputs =
     Some ([Search ''Our product cures everything  SALE'' 3,
            Invoke stub_system (stub_user (stub_world stub_polls pass_answer))],
           Inr pass_final) \<and>
   map_of pass_final ''final_status'' = Some (PStr ''PASS'') \<and>
   (\<exists>sys usr content body d.
      Invoke sys usr \<in> set [Search ''Our product cures everything  SALE'' 3,
            Invoke stub_system (stub_user (stub_world stub_polls pass_answer))] \<and>
      llm_invoke (stub_world stub_polls pass_answer) sys usr = Inr content \<and>
      unfence content = Inr body \<and>
      json_loads (stub_world stub_polls pass_answer) (strip body) = Inr (PDict d) \<and>
      map_of d ''status'' = Some (PStr ''PASS'') \<and>
      map_of pass_final ''compliance_results'' =
        Some (case map_of d ''compliance_results'' of Some v \<Rightarrow> v | None \<Rightarrow> PList []))"
  using pass_results_from_model [OF pass_invoke pass_final_status] pass_invoke
    pass_final_status
  by simp

section \<open>Failure of the extraction\<close>

text \<open>
  Claim C10. Whatever exception the body of the indexer raises, the node returns the
  failure record: the message as only entry of \<open>errors\<close>, the status \<open>FAIL\<close>, the
  empty transcript and the empty OCR list. The graph then runs the auditor on the merged
  state, which has the empty transcript, so the auditor takes its short circuit: the run
  completes with status \<open>FAIL\<close> and the fixed report, and makes no call at all, so the
  language model is never invoked.
\<close>

theorem extraction_failure_skips_model:
  assumes "index_video_body w state = Some (Inl e)"
  shows "index_video_node w state =
           Some [(''errors'', PList [PStr (str_exn e)]),
                 (''final_status'', PStr ''FAIL''),
                 (''transcript'', PStr []),
                 (''ocr_text'', PList [])] \<and>
         (\<exists>final. invoke w state = Some ([], Inr final) \<and>
            map_of final ''transcript'' = Some (PStr []) \<and>
            map_of final ''ocr_text'' = Some (PList []) \<and>
            map_of final ''final_status'' = Some (PStr ''FAIL'') \<and>
            map_of final ''final_report'' =
              Some (PStr ''Audit skipped because video processing failed (No transcript)''))"
proof -
  let ?s1 = "merge_state state (index_failure e)"
  have node: "index_video_node w state = Some (index_failure e)"
    using assms by (simp add: index_video_node_def)
  have m: "map_of ?s1 ''transcript'' = Some (PStr [])" "map_of ?s1 ''ocr_text'' = Some (PList [])"
    by (simp_all add: index_failure_def map_of_dict_set merge_value_def)
  then have "\<not> truthy (dict_get ?s1 ''transcript'' (PStr []))"
    by (simp add: dict_get_def)
  from audio_skip [OF this, of w] node
  have inv: "invoke w state =
          Some ([], Inr (merge_state ?s1
             [(''final_status'', PStr ''FAIL''), (''final_report'', PStr skipped_report)]))"
    by (simp add: invoke_def Let_def del: merge_state.simps)
  let ?final = "merge_state ?s1
             [(''final_status'', PStr ''FAIL''), (''final_report'', PStr skipped_report)]"
  have f: "map_of ?final ''transcript'' = Some (PStr [])"
    "map_of ?final ''ocr_text'' = Some (PList [])"
    "map_of ?final ''final_status'' = Some (PStr ''FAIL'')"
    "map_of ?final ''final_report'' =
       Some (PStr ''Audit skipped because video processing failed (No transcript)'')"
    using m
    by (simp_all add: merged_skipped [unfolded skipped_report_def] skipped_report_def
        del: merge_state.simps)
  from inv f have "\<exists>final. invoke w state = Some ([], Inr final) \<and>
            map_of final ''transcript'' = Some (PStr []) \<and>
            map_of final ''ocr_text'' = Some (PList []) \<and>
            map_of final ''final_status'' = Some (PStr ''FAIL'') \<and>
            map_of final ''final_report'' =
              Some (PStr ''Audit skipped because video processing failed (No transcript)'')"
    by blast
  moreover have "index_video_node w state =
           Some [(''errors'', PList [PStr (str_exn e)]),
                 (''final_status'', PStr ''FAIL''),
                 (''transcript'', PStr []),
                 (''ocr_text'', PList [])]"
    using node by (simp add: index_failure_def)
  ultimately show ?thesis by blast
qed

theorem extraction_failure_skips_model_witness:
  "index_video_body (stub_world stub_polls pass_answer) vimeo_inputs =
     Some (Inl (Exception ''Please provide a valid URL for this test.'')) \<and>
   index_video_node (stub_world stub_polls pass_answer) vimeo_inputs =
     Some [(''errors'', PList [PStr ''Please provide a valid URL for this test.'']),
           (''final_status'', PStr ''FAIL''),
           (''transcript'', PStr []),
           (''ocr_text'', PList [])] \<and>
   (\<exists>final. invoke (stub_world stub_polls pass_answer) vimeo_inputs = Some ([], Inr final) \<and>
      map_of final ''final_status'' = Some (PStr ''FAIL'')) \<and>
   index_video_body (stub_world quarantined_polls pass_answer) stub_inputs =
     Some (Inl (Exception ''Video quarantined'')) \<and>
   index_video_node (stub_world quarantined_polls pass_answer) stub_inputs =
     Some [(''errors'', PList [PStr ''Video quarantined'']),
           (''final_status'', PStr ''FAIL''),
           (''transcript'', PStr []),
           (''ocr_text'', PList [])] \<and>
   (\<exists>final. invoke (stub_world quarantined_polls pass_answer) stub_inputs =
              Some ([], Inr final) \<and>
      map_of final ''final_status'' = Some (PStr ''FAIL''))"
proof -
  have b1: "index_video_body (stub_world stub_polls pass_answer) vimeo_inputs =
              Some (Inl (Exception ''Please provide a valid URL for this test.''))"
    by (rule stub_body_vimeo)
  have b2: "index_video_body (stub_world quarantined_polls pass_answer) stub_inputs =
              Some (Inl (Exception ''Video quarantined''))"
    by (simp add: stub_body_youtube stub_poll_quarantined)
  from extraction_failure_skips_model [OF b1] extraction_failure_skips_model [OF b2] b1 b2
  show ?thesis
    by (auto simp: Exception_def)
qed

end
